theory Spec2Isabelle
  imports Complex_Main "HOL-Library.Sublist"
begin

section \<open>JavaScript values\<close>

text \<open>
  The program is JavaScript (Node.js, ES modules). Its values are untyped, so the model
  carries one datatype of values: what \<open>JSON.parse\<close> can produce, plus
  \<open>undefined\<close>. A Number is a double: the finite ones are rationals and compare as
  rationals do, so \<open>Fin q\<close> stands for the double with value \<open>q\<close>
  (\<open>+0\<close> and \<open>-0\<close> are both \<open>Fin 0\<close>: they are equal, both falsy
  and both print as 0). A string is its UTF-8 bytes; every pattern the program searches for
  is ASCII. An object is the list of its own properties, keys distinct.
\<close>

datatype jsnum = NaN | NegInf | Fin rat | PosInf

datatype jsval =
    Undefined
  | Null
  | Bool bool
  | Num jsnum
  | Str string
  | Arr "jsval list"
  | Obj "(string \<times> jsval) list"

text \<open>ToBoolean: the falsy values are undefined, null, false, 0, NaN and the empty string.\<close>

fun truthy :: "jsval \<Rightarrow> bool" where
  "truthy Undefined = False"
| "truthy Null = False"
| "truthy (Bool b) = b"
| "truthy (Num NaN) = False"
| "truthy (Num (Fin q)) = (q \<noteq> 0)"
| "truthy (Num NegInf) = True"
| "truthy (Num PosInf) = True"
| "truthy (Str s) = (s \<noteq> [])"
| "truthy (Arr xs) = True"
| "truthy (Obj kvs) = True"

text \<open>\<open>a || b\<close> on values without side effects.\<close>

definition js_or :: "jsval \<Rightarrow> jsval \<Rightarrow> jsval" where
  "js_or a b = (if truthy a then a else b)"

text \<open>
  The conversions of the language that are not code of this repository are parameters:
  the printing of a finite Number, the \<open>toString\<close> of an array or object, and the
  parsing of a string as a Number.
\<close>

record runtime =
  finiteToString :: "rat \<Rightarrow> string"
  compositeToString :: "jsval \<Rightarrow> string"
  stringToNumber :: "string \<Rightarrow> jsnum"

text \<open>ToString, as a template literal \<open>${v}\<close> applies it.\<close>

fun ToString :: "runtime \<Rightarrow> jsval \<Rightarrow> string" where
  "ToString R Undefined = ''undefined''"
| "ToString R Null = ''null''"
| "ToString R (Bool b) = (if b then ''true'' else ''false'')"
| "ToString R (Num NaN) = ''NaN''"
| "ToString R (Num NegInf) = ''-Infinity''"
| "ToString R (Num PosInf) = ''Infinity''"
| "ToString R (Num (Fin q)) = finiteToString R q"
| "ToString R (Str s) = s"
| "ToString R (Arr xs) = compositeToString R (Arr xs)"
| "ToString R (Obj kvs) = compositeToString R (Obj kvs)"

text \<open>ToNumber; an array or object is first converted to its string.\<close>

fun ToNumber :: "runtime \<Rightarrow> jsval \<Rightarrow> jsnum" where
  "ToNumber R Undefined = NaN"
| "ToNumber R Null = Fin 0"
| "ToNumber R (Bool b) = Fin (if b then 1 else 0)"
| "ToNumber R (Num n) = n"
| "ToNumber R (Str s) = stringToNumber R s"
| "ToNumber R (Arr xs) = stringToNumber R (compositeToString R (Arr xs))"
| "ToNumber R (Obj kvs) = stringToNumber R (compositeToString R (Obj kvs))"

text \<open>Number::lessThan, with the undefined result of a NaN operand read as false.\<close>

fun num_lt :: "jsnum \<Rightarrow> jsnum \<Rightarrow> bool" where
  "num_lt NaN y = False"
| "num_lt x NaN = False"
| "num_lt NegInf NegInf = False"
| "num_lt NegInf y = True"
| "num_lt x NegInf = False"
| "num_lt PosInf y = False"
| "num_lt (Fin a) PosInf = True"
| "num_lt (Fin a) (Fin b) = (a < b)"

text \<open>\<open>v > k\<close> and \<open>v < k\<close> against a numeric literal \<open>k\<close>.\<close>

definition js_gt :: "runtime \<Rightarrow> jsval \<Rightarrow> rat \<Rightarrow> bool" where
  "js_gt R v k = num_lt (Fin k) (ToNumber R v)"

definition js_lt :: "runtime \<Rightarrow> jsval \<Rightarrow> rat \<Rightarrow> bool" where
  "js_lt R v k = num_lt (ToNumber R v) (Fin k)"

text \<open>
  Property access by a name that no prototype defines (every name the program reads is
  such a name): \<open>v?.name\<close> is undefined unless \<open>v\<close> is an object with that
  property.
\<close>

fun opt_member :: "jsval \<Rightarrow> string \<Rightarrow> jsval" where
  "opt_member (Obj kvs) k = (case map_of kvs k of Some v \<Rightarrow> v | None \<Rightarrow> Undefined)"
| "opt_member v k = Undefined"

text \<open>\<open>v?.[0]\<close>.\<close>

fun opt_index0 :: "jsval \<Rightarrow> jsval" where
  "opt_index0 (Arr xs) = (case xs of [] \<Rightarrow> Undefined | x # rest \<Rightarrow> x)"
| "opt_index0 (Str s) = (if s = [] then Undefined else Str (take 1 s))"
| "opt_index0 (Obj kvs) = opt_member (Obj kvs) ''0''"
| "opt_index0 v = Undefined"

text \<open>
  A thrown error, as the handlers' catch blocks read it: \<open>err.response?.status\<close>,
  \<open>err.code\<close> and \<open>err.message\<close>.
\<close>

record js_error =
  err_response_status :: jsval
  err_code :: jsval
  err_message :: jsval

definition TypeError :: "string \<Rightarrow> js_error" where
  "TypeError m = \<lparr>err_response_status = Undefined, err_code = Undefined, err_message = Str m\<rparr>"

text \<open>\<open>v.name\<close> and \<open>v[0]\<close>: reading a property of undefined or null throws.\<close>

definition nullish :: "jsval \<Rightarrow> bool" where
  "nullish v = (v = Undefined \<or> v = Null)"

definition member :: "jsval \<Rightarrow> string \<Rightarrow> js_error + jsval" where
  "member v k =
     (if nullish v
      then Inl (TypeError (''Cannot read properties of '' @ (if v = Null then ''null'' else ''undefined'')
                           @ '' (reading '' @ [CHR 0x27] @ k @ [CHR 0x27] @ '')''))
      else Inr (opt_member v k))"

definition index0 :: "jsval \<Rightarrow> js_error + jsval" where
  "index0 v =
     (if nullish v
      then Inl (TypeError (''Cannot read properties of '' @ (if v = Null then ''null'' else ''undefined'')
                           @ '' (reading '' @ [CHR 0x27] @ ''0'' @ [CHR 0x27] @ '')''))
      else Inr (opt_index0 v))"

section \<open>utils.js\<close>

record weather =
  description :: jsval
  temp :: jsval
  wind :: jsval

text \<open>The request URL of \<open>getWeather\<close>; the key is \<open>process.env.OPENWEATHER_API_KEY\<close>.\<close>

definition weatherUrl :: "runtime \<Rightarrow> jsval \<Rightarrow> jsval \<Rightarrow> string" where
  "weatherUrl R region key =
     ''https://api.openweathermap.org/data/2.5/weather?q='' @ ToString R region
     @ ''&appid='' @ ToString R key @ ''&units=metric''"

text \<open>
  The object literal that \<open>getWeather\<close> returns, from \<open>weatherResp.data\<close>. Only the
  first access, \<open>weatherData.weather\<close>, can throw.
\<close>

definition readWeather :: "jsval \<Rightarrow> js_error + weather" where
  "readWeather weatherData =
     (case member weatherData ''weather'' of
        Inl e \<Rightarrow> Inl e
      | Inr ws \<Rightarrow> Inr
          \<lparr> description = js_or (opt_member (opt_index0 ws) ''description'') (Str ''Unknown''),
            temp = js_or (opt_member (opt_member weatherData ''main'') ''temp'') Null,
            wind = js_or (opt_member (opt_member weatherData ''wind'') ''speed'') Null \<rparr>)"

text \<open>\<open>axios.get\<close> is the weather provider: it throws or yields the reply's data.\<close>

definition getWeather ::
  "runtime \<Rightarrow> jsval \<Rightarrow> (string \<Rightarrow> js_error + jsval) \<Rightarrow> jsval \<Rightarrow> js_error + weather" where
  "getWeather R key axios_get region =
     (case axios_get (weatherUrl R region key) of
        Inl e \<Rightarrow> Inl e
      | Inr weatherData \<Rightarrow> readWeather weatherData)"

definition emdash :: string where
  "emdash = [CHR 0xE2, CHR 0x80, CHR 0x94]"

definition default_message :: string where
  "default_message = ''No urgent issues.''"

definition heatwave_message :: string where
  "heatwave_message = ''Heatwave alert! Irrigate in morning/evening and provide shade if possible.''"

definition rain_message :: string where
  "rain_message = ''Heavy rain expected '' @ emdash @ '' ensure proper drainage.''"

definition wind_message :: string where
  "wind_message = ''Strong winds ahead '' @ emdash @ '' secure plants and structures.''"

text \<open>
  \<open>weather.description.includes("rain")\<close>: a substring test on a string, a membership
  test on an array, a TypeError on anything else.
\<close>

fun includes_rain :: "jsval \<Rightarrow> js_error + bool" where
  "includes_rain (Str s) = Inr (sublist ''rain'' s)"
| "includes_rain (Arr xs) = Inr (Str ''rain'' \<in> set xs)"
| "includes_rain Undefined = Inl (TypeError (''Cannot read properties of undefined (reading ''
                                  @ [CHR 0x27] @ ''includes'' @ [CHR 0x27] @ '')''))"
| "includes_rain Null = Inl (TypeError (''Cannot read properties of null (reading ''
                                  @ [CHR 0x27] @ ''includes'' @ [CHR 0x27] @ '')''))"
| "includes_rain v = Inl (TypeError ''weather.description.includes is not a function'')"

definition getAlert :: "runtime \<Rightarrow> weather \<Rightarrow> js_error + string" where
  "getAlert R w =
     (let emergency = default_message;
          emergency = (if js_gt R (temp w) 40 then heatwave_message else emergency)
      in case includes_rain (description w) of
           Inl e \<Rightarrow> Inl e
         | Inr rain \<Rightarrow>
             (let emergency = (if rain \<and> js_lt R (temp w) 25 then rain_message else emergency);
                  emergency = (if js_gt R (wind w) 40 then wind_message else emergency)
              in Inr emergency))"

text \<open>
  A runtime for closed examples. It prints an integral Number in decimal, as JavaScript
  does (for magnitudes below 10^21); no example prints another Number, prints an array or
  object, or compares a string with a Number.
\<close>

fun decimal :: "nat \<Rightarrow> string" where
  "decimal n = (if n < 10 then [''0123456789'' ! n]
                else decimal (n div 10) @ [''0123456789'' ! (n mod 10)])"

declare decimal.simps [simp del]

definition example_runtime :: runtime where
  "example_runtime =
     \<lparr>finiteToString = (\<lambda>q. case quotient_of q of
           (n, d) \<Rightarrow> if d = 1
                     then (if n < 0 then ''-'' @ decimal (nat (- n)) else decimal (nat n))
                     else ''?''),
      compositeToString = (\<lambda>v. ''[object Object]''),
      stringToNumber = (\<lambda>s. NaN)\<rparr>"

section \<open>The servers\<close>

text \<open>
  Three servers define the route \<open>/get-farmer-advice\<close>: the authenticated one
  (part_000, and again as the second server of part_001; suffix \<open>_auth\<close> below), the
  richer one (the first server of part_001; suffix \<open>_rich\<close>) and the basic one
  without authentication (part_002; suffix \<open>_basic\<close>). Console logging is left out.
\<close>

record response =
  status :: nat
  body :: jsval

text \<open>What \<open>process.env\<close> holds: a variable is unset or a string.\<close>

record env =
  OPENWEATHER_API_KEY :: "string option"
  MCP_BEARER_TOKEN :: "string option"
  NODE_ENV :: "string option"

definition env_value :: "string option \<Rightarrow> jsval" where
  "env_value v = (case v of None \<Rightarrow> Undefined | Some s \<Rightarrow> Str s)"

text \<open>
  The two upstream providers, as deterministic stubs: \<open>axios.get(url)\<close> yields the
  reply's data or throws, \<open>openai.chat.completions.create(request)\<close> yields the
  completion object or throws.
\<close>

record backends =
  be_axios_get :: "string \<Rightarrow> js_error + jsval"
  be_chat_create :: "jsval \<Rightarrow> js_error + jsval"

text \<open>
  What a request reads from outside its inputs: \<open>new Date().toISOString()\<close> and
  \<open>Math.random().toString(36)\<close>.
\<close>

record ambient =
  clock_now :: string
  random36 :: string

text \<open>\<open>req.query\<close>: an absent parameter is undefined.\<close>

record query =
  q_crop :: jsval
  q_region :: jsval
  q_lang :: jsval

text \<open>The log of a spy on the two providers.\<close>

datatype upstream_call = WeatherCall string | GenerationCall jsval

definition nl :: string where
  "nl = [CHR 0x0A]"

definition degree :: string where
  "degree = [CHR 0xC2, CHR 0xB0]"

definition apostrophe :: string where
  "apostrophe = [CHR 0x27]"

subsection \<open>authenticateBearer\<close>

datatype middleware_result = Next | Responded response

definition authenticateBearer :: "string option \<Rightarrow> string option \<Rightarrow> middleware_result" where
  "authenticateBearer authHeader expectedToken =
     (case authHeader of
        None \<Rightarrow> Responded \<lparr>status = 401, body = Obj [(''error'', Str ''Unauthorized''),
                                                     (''message'', Str ''Bearer token required'')]\<rparr>
      | Some h \<Rightarrow>
          if h = [] \<or> \<not> prefix ''Bearer '' h
          then Responded \<lparr>status = 401, body = Obj [(''error'', Str ''Unauthorized''),
                                                    (''message'', Str ''Bearer token required'')]\<rparr>
          else (let token = drop 7 h in
                case expectedToken of
                  None \<Rightarrow> Responded \<lparr>status = 500,
                             body = Obj [(''error'', Str ''Server configuration error''),
                                         (''message'', Str ''MCP_BEARER_TOKEN not configured'')]\<rparr>
                | Some e \<Rightarrow>
                    if e = []
                    then Responded \<lparr>status = 500,
                             body = Obj [(''error'', Str ''Server configuration error''),
                                         (''message'', Str ''MCP_BEARER_TOKEN not configured'')]\<rparr>
                    else if token \<noteq> e
                    then Responded \<lparr>status = 401, body = Obj [(''error'', Str ''Unauthorized''),
                                         (''message'', Str ''Invalid bearer token'')]\<rparr>
                    else Next))"

definition authenticateBearer_rich :: "string option \<Rightarrow> string option \<Rightarrow> middleware_result" where
  "authenticateBearer_rich authHeader expectedToken =
     (case authHeader of
        None \<Rightarrow> Responded \<lparr>status = 401, body = Obj [(''error'', Str ''Authentication required''),
                     (''message'', Str ''Bearer token must be provided in Authorization header'')]\<rparr>
      | Some h \<Rightarrow>
          if h = [] \<or> \<not> prefix ''Bearer '' h
          then Responded \<lparr>status = 401, body = Obj [(''error'', Str ''Authentication required''),
                     (''message'', Str ''Bearer token must be provided in Authorization header'')]\<rparr>
          else (let token = drop 7 h in
                case expectedToken of
                  None \<Rightarrow> Responded \<lparr>status = 500,
                             body = Obj [(''error'', Str ''Server misconfiguration''),
                                         (''message'', Str ''Authentication not properly configured'')]\<rparr>
                | Some e \<Rightarrow>
                    if e = []
                    then Responded \<lparr>status = 500,
                             body = Obj [(''error'', Str ''Server misconfiguration''),
                                         (''message'', Str ''Authentication not properly configured'')]\<rparr>
                    else if token \<noteq> e
                    then Responded \<lparr>status = 401, body = Obj [(''error'', Str ''Invalid authentication''),
                                         (''message'', Str ''Bearer token is incorrect'')]\<rparr>
                    else Next))"

subsection \<open>The prompts\<close>

definition language_auth :: "jsval \<Rightarrow> string" where
  "language_auth lang = (if lang = Str ''hi'' then ''Hindi (Devanagari script)'' else ''English'')"

definition prompt_auth :: "runtime \<Rightarrow> jsval \<Rightarrow> jsval \<Rightarrow> weather \<Rightarrow> string \<Rightarrow> jsval \<Rightarrow> string" where
  "prompt_auth R crop region w emergency lang =
     nl @ ''      You are a farming assistant for Indian farmers.'' @ nl
     @ ''      Weather: '' @ ToString R (description w) @ '', Temperature: '' @ ToString R (temp w)
     @ degree @ ''C, Wind Speed: '' @ ToString R (wind w) @ '' km/h'' @ nl
     @ ''      Crop: '' @ ToString R crop @ nl
     @ ''      Region: '' @ ToString R region @ nl
     @ ''      Emergency alert: '' @ emergency @ nl
     @ ''      '' @ nl
     @ ''      Provide a concise, practical farming tip for this situation. Consider:'' @ nl
     @ ''      - Current weather conditions'' @ nl
     @ ''      - Crop-specific needs'' @ nl
     @ ''      - Regional farming practices'' @ nl
     @ ''      - Seasonal considerations'' @ nl
     @ ''      '' @ nl
     @ ''      Language: '' @ language_auth lang @ nl
     @ ''      Keep the response under 150 words and actionable.'' @ nl
     @ ''    ''"

definition language_rich :: "jsval \<Rightarrow> string" where
  "language_rich lang = (if lang = Str ''hi'' then ''Hindi (use Devanagari script)'' else ''English'')"

definition prompt_rich :: "runtime \<Rightarrow> jsval \<Rightarrow> jsval \<Rightarrow> weather \<Rightarrow> string \<Rightarrow> jsval \<Rightarrow> string" where
  "prompt_rich R crop region w emergency lang =
     ''You are an expert agricultural advisor for Indian farmers.'' @ nl
     @ nl
     @ ''CURRENT CONDITIONS:'' @ nl
     @ ''- Location: '' @ ToString R region @ '', India'' @ nl
     @ ''- Crop: '' @ ToString R crop @ nl
     @ ''- Weather: '' @ ToString R (description w) @ nl
     @ ''- Temperature: '' @ ToString R (temp w) @ degree @ ''C'' @ nl
     @ ''- Wind: '' @ ToString R (wind w) @ '' km/h'' @ nl
     @ ''- Emergency Status: '' @ emergency @ nl
     @ nl
     @ ''TASK: Provide specific, actionable farming advice for this situation.'' @ nl
     @ nl
     @ ''GUIDELINES:'' @ nl
     @ ''- Consider the current weather impact on '' @ ToString R crop @ nl
     @ ''- Include immediate actions the farmer should take'' @ nl
     @ ''- Mention any preventive measures needed'' @ nl
     @ ''- Keep advice practical and location-specific'' @ nl
     @ ''- Language: '' @ language_rich lang @ nl
     @ ''- Length: Maximum 100 words'' @ nl
     @ nl
     @ ''Focus on what the farmer should do TODAY based on these conditions.''"

definition language_basic :: "jsval \<Rightarrow> string" where
  "language_basic lang = (if lang = Str ''hi'' then ''Hindi'' else ''English'')"

definition prompt_basic :: "runtime \<Rightarrow> jsval \<Rightarrow> weather \<Rightarrow> string \<Rightarrow> jsval \<Rightarrow> string" where
  "prompt_basic R crop w emergency lang =
     nl @ ''      You are a farming assistant.'' @ nl
     @ ''      Weather: '' @ ToString R (description w) @ '', Temperature: '' @ ToString R (temp w)
     @ degree @ ''C, Wind Speed: '' @ ToString R (wind w) @ '' km/h'' @ nl
     @ ''      Crop: '' @ ToString R crop @ nl
     @ ''      Emergency alert: '' @ emergency @ nl
     @ ''      Give a short, practical farming tip for this situation.'' @ nl
     @ ''      Language: '' @ language_basic lang @ nl
     @ ''    ''"

subsection \<open>The generation call\<close>

definition chat_request_auth :: "string \<Rightarrow> jsval" where
  "chat_request_auth prompt =
     Obj [(''model'', Str ''gpt-4o-mini''),
          (''messages'', Arr [Obj [(''role'', Str ''user''), (''content'', Str prompt)]]),
          (''temperature'', Num (Fin (7 / 10))),
          (''max_tokens'', Num (Fin 200))]"

definition chat_request_rich :: "string \<Rightarrow> jsval" where
  "chat_request_rich prompt =
     Obj [(''model'', Str ''gpt-4o-mini''),
          (''messages'', Arr [Obj [(''role'', Str ''user''), (''content'', Str prompt)]]),
          (''temperature'', Num (Fin (7 / 10))),
          (''max_tokens'', Num (Fin 150))]"

definition chat_request_basic :: "string \<Rightarrow> jsval" where
  "chat_request_basic prompt =
     Obj [(''model'', Str ''gpt-4o-mini''),
          (''messages'', Arr [Obj [(''role'', Str ''user''), (''content'', Str prompt)]])]"

text \<open>\<open>aiResp.choices[0].message.content\<close>.\<close>

definition first_choice_content :: "jsval \<Rightarrow> js_error + jsval" where
  "first_choice_content aiResp =
     (case member aiResp ''choices'' of
        Inl e \<Rightarrow> Inl e
      | Inr choices \<Rightarrow>
          (case index0 choices of
             Inl e \<Rightarrow> Inl e
           | Inr choice \<Rightarrow>
               (case member choice ''message'' of
                  Inl e \<Rightarrow> Inl e
                | Inr msg \<Rightarrow> member msg ''content'')))"

text \<open>\<open>const { crop, region, lang = "en" } = req.query\<close>: the default replaces undefined only.\<close>

definition lang_of :: "query \<Rightarrow> jsval" where
  "lang_of q = (if q_lang q = Undefined then Str ''en'' else q_lang q)"

subsection \<open>The authenticated server (part_000)\<close>

text \<open>
  The body of the \<open>try\<close> block: what it throws or the response it sends, with the
  upstream calls made up to there.
\<close>

definition try_auth ::
  "runtime \<Rightarrow> env \<Rightarrow> backends \<Rightarrow> ambient \<Rightarrow> jsval \<Rightarrow> jsval \<Rightarrow> jsval
     \<Rightarrow> (js_error + response) \<times> upstream_call list" where
  "try_auth R E B A crop region lang =
     (let key = env_value (OPENWEATHER_API_KEY E);
          calls = [WeatherCall (weatherUrl R region key)]
      in case getWeather R key (be_axios_get B) region of
           Inl err \<Rightarrow> (Inl err, calls)
         | Inr w \<Rightarrow>
            (case getAlert R w of
               Inl err \<Rightarrow> (Inl err, calls)
             | Inr emergency \<Rightarrow>
                (let prompt = prompt_auth R crop region w emergency lang;
                     request = chat_request_auth prompt;
                     calls = calls @ [GenerationCall request]
                 in case be_chat_create B request of
                      Inl err \<Rightarrow> (Inl err, calls)
                    | Inr aiResp \<Rightarrow>
                       (case first_choice_content aiResp of
                          Inl err \<Rightarrow> (Inl err, calls)
                        | Inr advice \<Rightarrow>
                           (Inr \<lparr>status = 200, body = Obj
                              [(''success'', Bool True),
                               (''data'', Obj
                                 [(''crop'', crop),
                                  (''region'', region),
                                  (''forecast'', Str (ToString R (description w) @ '', ''
                                      @ ToString R (temp w) @ degree @ ''C, Wind: ''
                                      @ ToString R (wind w) @ '' km/h'')),
                                  (''daily_tip'', advice),
                                  (''emergency_alert'', Str emergency),
                                  (''timestamp'', Str (clock_now A)),
                                  (''language'', lang)])]\<rparr>, calls)))))"

definition catch_auth :: "runtime \<Rightarrow> jsval \<Rightarrow> js_error \<Rightarrow> response" where
  "catch_auth R region err =
     (if err_response_status err = Num (Fin 404)
      then \<lparr>status = 404, body = Obj
              [(''error'', Str ''Location not found''),
               (''message'', Str (''Unable to find weather data for region: '' @ ToString R region))]\<rparr>
      else if err_response_status err = Num (Fin 401)
      then \<lparr>status = 500, body = Obj
              [(''error'', Str ''Weather API authentication failed''),
               (''message'', Str ''Please check OPENWEATHER_API_KEY configuration'')]\<rparr>
      else \<lparr>status = 500, body = Obj
              [(''error'', Str ''Internal server error''),
               (''message'', js_or (err_message err)
                    (Str ''Something went wrong while processing your request''))]\<rparr>)"

definition handler_auth ::
  "runtime \<Rightarrow> env \<Rightarrow> backends \<Rightarrow> ambient \<Rightarrow> query \<Rightarrow> response \<times> upstream_call list" where
  "handler_auth R E B A q =
     (let crop = q_crop q; region = q_region q; lang = lang_of q
      in if \<not> truthy crop \<or> \<not> truthy region
         then (\<lparr>status = 400, body = Obj
                  [(''error'', Str ''Missing parameters''),
                   (''message'', Str ''Both crop and region parameters are required'')]\<rparr>, [])
         else (case try_auth R E B A crop region lang of
                 (Inr sent, calls) \<Rightarrow> (sent, calls)
               | (Inl err, calls) \<Rightarrow> (catch_auth R region err, calls)))"

text \<open>The route: the middleware, then the handler.\<close>

definition route_auth ::
  "runtime \<Rightarrow> env \<Rightarrow> backends \<Rightarrow> ambient \<Rightarrow> string option \<Rightarrow> query
     \<Rightarrow> response \<times> upstream_call list" where
  "route_auth R E B A authHeader q =
     (case authenticateBearer authHeader (MCP_BEARER_TOKEN E) of
        Responded r \<Rightarrow> (r, [])
      | Next \<Rightarrow> handler_auth R E B A q)"

subsection \<open>The richer server (part_001)\<close>

definition try_rich ::
  "runtime \<Rightarrow> env \<Rightarrow> backends \<Rightarrow> ambient \<Rightarrow> jsval \<Rightarrow> jsval \<Rightarrow> jsval
     \<Rightarrow> (js_error + response) \<times> upstream_call list" where
  "try_rich R E B A crop region lang =
     (let key = env_value (OPENWEATHER_API_KEY E);
          calls = [WeatherCall (weatherUrl R region key)]
      in case getWeather R key (be_axios_get B) region of
           Inl err \<Rightarrow> (Inl err, calls)
         | Inr w \<Rightarrow>
            (case getAlert R w of
               Inl err \<Rightarrow> (Inl err, calls)
             | Inr emergency \<Rightarrow>
                (let prompt = prompt_rich R crop region w emergency lang;
                     request = chat_request_rich prompt;
                     calls = calls @ [GenerationCall request]
                 in case be_chat_create B request of
                      Inl err \<Rightarrow> (Inl err, calls)
                    | Inr aiResponse \<Rightarrow>
                       (case first_choice_content aiResponse of
                          Inl err \<Rightarrow> (Inl err, calls)
                        | Inr advice \<Rightarrow>
                           (Inr \<lparr>status = 200, body = Obj
                              [(''success'', Bool True),
                               (''data'', Obj
                                 [(''crop'', crop),
                                  (''region'', region),
                                  (''weather_forecast'', Str (ToString R (description w) @ '', ''
                                      @ ToString R (temp w) @ degree @ ''C, Wind: ''
                                      @ ToString R (wind w) @ '' km/h'')),
                                  (''farming_advice'', advice),
                                  (''emergency_alert'', Str emergency),
                                  (''language'', lang),
                                  (''timestamp'', Str (clock_now A)),
                                  (''confidence'', Str ''high'')]),
                               (''metadata'', Obj
                                 [(''weather_source'', Str ''OpenWeatherMap''),
                                  (''ai_model'', Str ''GPT-4o-mini''),
                                  (''request_id'', Str (drop 7 (random36 A)))])]\<rparr>, calls)))))"

definition catch_rich :: "runtime \<Rightarrow> env \<Rightarrow> jsval \<Rightarrow> js_error \<Rightarrow> response" where
  "catch_rich R E region err =
     (if err_response_status err = Num (Fin 404)
      then \<lparr>status = 404, body = Obj
              [(''success'', Bool False),
               (''error'', Str ''Location not found''),
               (''message'', Str (''Weather data unavailable for '' @ ToString R region
                                  @ ''. Try a major city name.'')),
               (''suggestions'', Arr [Str ''Delhi'', Str ''Mumbai'', Str ''Chennai'',
                                      Str ''Bangalore'', Str ''Kolkata''])]\<rparr>
      else if err_code err = Str ''insufficient_quota''
      then \<lparr>status = 503, body = Obj
              [(''success'', Bool False),
               (''error'', Str ''Service temporarily unavailable''),
               (''message'', Str ''AI service quota exceeded. Please try again later.'')]\<rparr>
      else \<lparr>status = 500, body = Obj
              [(''success'', Bool False),
               (''error'', Str ''Internal server error''),
               (''message'', Str ''Unable to generate farming advice at this time''),
               (''details'', if NODE_ENV E = Some ''development'' then err_message err
                             else Undefined)]\<rparr>)"

definition handler_rich ::
  "runtime \<Rightarrow> env \<Rightarrow> backends \<Rightarrow> ambient \<Rightarrow> query \<Rightarrow> response \<times> upstream_call list" where
  "handler_rich R E B A q =
     (let crop = q_crop q; region = q_region q; lang = lang_of q
      in if \<not> truthy crop \<or> \<not> truthy region
         then (\<lparr>status = 400, body = Obj
                  [(''success'', Bool False),
                   (''error'', Str ''Missing required parameters''),
                   (''message'', Str (''Both '' @ apostrophe @ ''crop'' @ apostrophe @ '' and ''
                        @ apostrophe @ ''region'' @ apostrophe @ '' parameters are required'')),
                   (''usage'', Str ''?crop=wheat&region=Punjab&lang=en'')]\<rparr>, [])
         else (case try_rich R E B A crop region lang of
                 (Inr sent, calls) \<Rightarrow> (sent, calls)
               | (Inl err, calls) \<Rightarrow> (catch_rich R E region err, calls)))"

definition route_rich ::
  "runtime \<Rightarrow> env \<Rightarrow> backends \<Rightarrow> ambient \<Rightarrow> string option \<Rightarrow> query
     \<Rightarrow> response \<times> upstream_call list" where
  "route_rich R E B A authHeader q =
     (case authenticateBearer_rich authHeader (MCP_BEARER_TOKEN E) of
        Responded r \<Rightarrow> (r, [])
      | Next \<Rightarrow> handler_rich R E B A q)"

subsection \<open>The basic server (part_002)\<close>

definition try_basic ::
  "runtime \<Rightarrow> env \<Rightarrow> backends \<Rightarrow> jsval \<Rightarrow> jsval \<Rightarrow> jsval
     \<Rightarrow> (js_error + response) \<times> upstream_call list" where
  "try_basic R E B crop region lang =
     (let key = env_value (OPENWEATHER_API_KEY E);
          calls = [WeatherCall (weatherUrl R region key)]
      in case getWeather R key (be_axios_get B) region of
           Inl err \<Rightarrow> (Inl err, calls)
         | Inr w \<Rightarrow>
            (case getAlert R w of
               Inl err \<Rightarrow> (Inl err, calls)
             | Inr emergency \<Rightarrow>
                (let prompt = prompt_basic R crop w emergency lang;
                     request = chat_request_basic prompt;
                     calls = calls @ [GenerationCall request]
                 in case be_chat_create B request of
                      Inl err \<Rightarrow> (Inl err, calls)
                    | Inr aiResp \<Rightarrow>
                       (case first_choice_content aiResp of
                          Inl err \<Rightarrow> (Inl err, calls)
                        | Inr advice \<Rightarrow>
                           (Inr \<lparr>status = 200, body = Obj
                              [(''crop'', crop),
                               (''region'', region),
                               (''forecast'', Str (ToString R (description w) @ '', ''
                                      @ ToString R (temp w) @ degree @ ''C'')),
                               (''daily_tip'', advice),
                               (''emergency_alert'', Str emergency)]\<rparr>, calls)))))"

definition handler_basic ::
  "runtime \<Rightarrow> env \<Rightarrow> backends \<Rightarrow> query \<Rightarrow> response \<times> upstream_call list" where
  "handler_basic R E B q =
     (let crop = q_crop q; region = q_region q; lang = lang_of q
      in if \<not> truthy crop \<or> \<not> truthy region
         then (\<lparr>status = 400, body = Obj
                  [(''error'', Str ''Missing crop or region parameter'')]\<rparr>, [])
         else (case try_basic R E B crop region lang of
                 (Inr sent, calls) \<Rightarrow> (sent, calls)
               | (Inl err, calls) \<Rightarrow>
                   (\<lparr>status = 500, body = Obj [(''error'', err_message err)]\<rparr>, calls)))"

subsection \<open>Comparing response bodies\<close>

text \<open>\<open>erase_in section key b\<close>: the body \<open>b\<close> without the property \<open>key\<close> of its object \<open>section\<close>.\<close>

definition delete_key :: "string \<Rightarrow> jsval \<Rightarrow> jsval" where
  "delete_key key v = (case v of Obj kvs \<Rightarrow> Obj (filter (\<lambda>kv. fst kv \<noteq> key) kvs) | other \<Rightarrow> other)"

definition erase_in :: "string \<Rightarrow> string \<Rightarrow> jsval \<Rightarrow> jsval" where
  "erase_in section key b =
     (case b of
        Obj kvs \<Rightarrow> Obj (map (\<lambda>kv. if fst kv = section then (fst kv, delete_key key (snd kv)) else kv) kvs)
      | other \<Rightarrow> other)"

text \<open>Stubs for closed examples.\<close>

definition stub_env :: env where
  "stub_env = \<lparr>OPENWEATHER_API_KEY = Some ''k'', MCP_BEARER_TOKEN = Some ''s3cret'', NODE_ENV = None\<rparr>"

definition stub_payload :: jsval where
  "stub_payload = Obj [(''weather'', Arr [Obj [(''description'', Str ''light rain'')]]),
                       (''main'', Obj [(''temp'', Num (Fin 20))]),
                       (''wind'', Obj [(''speed'', Num (Fin 5))])]"

definition stub_completion :: jsval where
  "stub_completion = Obj [(''choices'', Arr [Obj [(''message'', Obj [(''content'', Str ''Drain the field.'')])]])]"

definition stub_backends :: backends where
  "stub_backends = \<lparr>be_axios_get = (\<lambda>url. Inr stub_payload),
                     be_chat_create = (\<lambda>request. Inr stub_completion)\<rparr>"

definition stub_query :: query where
  "stub_query = \<lparr>q_crop = Str ''wheat'', q_region = Str ''Pune'', q_lang = Undefined\<rparr>"

text \<open>
  The spec's reading of the alert rules: a list of (condition, message) rules run in order,
  each matching rule overwriting the result so far.
\<close>

definition last_match_wins :: "string \<Rightarrow> (bool \<times> string) list \<Rightarrow> string" where
  "last_match_wins d rules = foldl (\<lambda>acc (c, m). if c then m else acc) d rules"

section \<open>Properties of utils.js\<close>

lemma messages_distinct:
  "heatwave_message \<noteq> default_message" "rain_message \<noteq> default_message"
  "wind_message \<noteq> default_message" "rain_message \<noteq> heatwave_message"
  "wind_message \<noteq> heatwave_message" "wind_message \<noteq> rain_message"
  by (simp_all add: heatwave_message_def rain_message_def wind_message_def default_message_def)

lemma getAlert_string:
  "description w = Str d \<Longrightarrow>
   getAlert R w = Inr
     (if js_gt R (wind w) 40 then wind_message
      else if sublist ''rain'' d \<and> js_lt R (temp w) 25 then rain_message
      else if js_gt R (temp w) 40 then heatwave_message
      else default_message)"
  by (simp add: getAlert_def)

lemma null_comparisons:
  "\<not> js_gt R Null 40" "js_lt R Null 25"
  by (simp_all add: js_gt_def js_lt_def)

text \<open>
  C1. On a reading whose description is a string, getAlert is the last-match-wins run of
  the three rules heat, rain, wind, in that order, from the default "No urgent issues.";
  the four messages are pairwise different, so the order is observable. On
  {temp:45, wind:50, description:"heavy rain"} the result is the strong-wind message, on
  {temp:45, wind:0, description:"clear"} the heatwave message, and on
  {temp:20, wind:0, description:"light rain"} the rain message.
\<close>

theorem getAlert_last_match_wins:
  "(description w = Str d \<longrightarrow>
      getAlert R w = Inr (last_match_wins default_message
        [(js_gt R (temp w) 40, heatwave_message),
         (sublist ''rain'' d \<and> js_lt R (temp w) 25, rain_message),
         (js_gt R (wind w) 40, wind_message)]))
   \<and> distinct [default_message, heatwave_message, rain_message, wind_message]
   \<and> getAlert R \<lparr>description = Str ''heavy rain'', temp = Num (Fin 45), wind = Num (Fin 50)\<rparr>
       = Inr wind_message
   \<and> getAlert R \<lparr>description = Str ''clear'', temp = Num (Fin 45), wind = Num (Fin 0)\<rparr>
       = Inr heatwave_message
   \<and> getAlert R \<lparr>description = Str ''light rain'', temp = Num (Fin 20), wind = Num (Fin 0)\<rparr>
       = Inr rain_message"
proof -
  have general: "description w = Str d \<longrightarrow>
      getAlert R w = Inr (last_match_wins default_message
        [(js_gt R (temp w) 40, heatwave_message),
         (sublist ''rain'' d \<and> js_lt R (temp w) 25, rain_message),
         (js_gt R (wind w) 40, wind_message)])"
    by (simp add: getAlert_string last_match_wins_def)
  have dist: "distinct [default_message, heatwave_message, rain_message, wind_message]"
    using messages_distinct by simp
  have e1: "getAlert R \<lparr>description = Str ''heavy rain'', temp = Num (Fin 45), wind = Num (Fin 50)\<rparr>
       = Inr wind_message"
    by (simp add: getAlert_def js_gt_def js_lt_def sublist_code(3))
  have e2: "getAlert R \<lparr>description = Str ''clear'', temp = Num (Fin 45), wind = Num (Fin 0)\<rparr>
       = Inr heatwave_message"
    by (simp add: getAlert_def js_gt_def js_lt_def sublist_code(3))
  have e3: "getAlert R \<lparr>description = Str ''light rain'', temp = Num (Fin 20), wind = Num (Fin 0)\<rparr>
       = Inr rain_message"
    by (simp add: getAlert_def js_gt_def js_lt_def sublist_code(3))
  from general dist e1 e2 e3 show ?thesis by blast
qed

theorem getAlert_last_match_wins_witness:
  "description \<lparr>description = Str ''light rain'', temp = Num (Fin 45), wind = Num (Fin 50)\<rparr>
     = Str ''light rain''
   \<and> getAlert example_runtime \<lparr>description = Str ''light rain'', temp = Num (Fin 45), wind = Num (Fin 50)\<rparr>
     = Inr (last_match_wins default_message
         [(True, heatwave_message), (False, rain_message), (True, wind_message)])
   \<and> last_match_wins default_message
         [(True, heatwave_message), (False, rain_message), (True, wind_message)] = wind_message"
  using getAlert_last_match_wins
    [of "\<lparr>description = Str ''light rain'', temp = Num (Fin 45), wind = Num (Fin 50)\<rparr>"
        "''light rain''" example_runtime]
  by (simp add: js_gt_def js_lt_def last_match_wins_def sublist_code(3))

text \<open>
  C2, as the code has it. A null temperature or wind speed never makes getAlert throw, a
  null temperature never triggers the heatwave rule and a null wind speed never triggers
  the strong-wind rule. In \<open>temp < 25\<close>, however, null is converted to 0, so the
  comparison is true: with a null temperature the rain rule fires whenever the description
  contains "rain".
\<close>

theorem getAlert_null_fields:
  "(temp w = Null \<longrightarrow> \<not> js_gt R (temp w) 40 \<and> js_lt R (temp w) 25)
   \<and> (wind w = Null \<longrightarrow> \<not> js_gt R (wind w) 40)
   \<and> (description w = Str d \<and> temp w = Null \<longrightarrow>
        getAlert R w = Inr (if js_gt R (wind w) 40 then wind_message
                            else if sublist ''rain'' d then rain_message
                            else default_message))
   \<and> (description w = Str d \<and> wind w = Null \<longrightarrow>
        getAlert R w = Inr (if sublist ''rain'' d \<and> js_lt R (temp w) 25 then rain_message
                            else if js_gt R (temp w) 40 then heatwave_message
                            else default_message))"
  by (simp add: getAlert_string null_comparisons)

theorem getAlert_null_fields_witness:
  "temp \<lparr>description = Str ''clear'', temp = Null, wind = Null\<rparr> = Null
   \<and> wind \<lparr>description = Str ''clear'', temp = Null, wind = Null\<rparr> = Null
   \<and> description \<lparr>description = Str ''clear'', temp = Null, wind = Null\<rparr> = Str ''clear''
   \<and> getAlert example_runtime \<lparr>description = Str ''clear'', temp = Null, wind = Null\<rparr>
       = Inr default_message"
  using getAlert_null_fields
    [of "\<lparr>description = Str ''clear'', temp = Null, wind = Null\<rparr>" example_runtime "''clear''"]
  by (simp add: js_gt_def js_lt_def sublist_code(3))

text \<open>
  C2 as stated fails: on {temp:null, wind:null, description:"light rain"} the conjunct
  \<open>temp < 25\<close> is true and the rain rule fires.
\<close>

theorem getAlert_null_temp_counterexample:
  "js_lt example_runtime (temp \<lparr>description = Str ''light rain'', temp = Null, wind = Null\<rparr>) 25
   \<and> getAlert example_runtime \<lparr>description = Str ''light rain'', temp = Null, wind = Null\<rparr>
       = Inr rain_message
   \<and> rain_message \<noteq> default_message"
  by (simp add: getAlert_def js_gt_def js_lt_def rain_message_def default_message_def
        sublist_code(3))

lemma readWeather_fields:
  "\<not> nullish d \<Longrightarrow>
   readWeather d = Inr
     \<lparr> description = js_or (opt_member (opt_index0 (opt_member d ''weather'')) ''description'')
                           (Str ''Unknown''),
       temp = js_or (opt_member (opt_member d ''main'') ''temp'') Null,
       wind = js_or (opt_member (opt_member d ''wind'') ''speed'') Null \<rparr>"
  by (simp add: readWeather_def member_def)

text \<open>
  C10. When the provider replies with a payload (any value but undefined and null),
  getWeather returns a reading in which a falsy main.temp is null, a falsy wind.speed is
  null and a falsy description is "Unknown". A temperature or wind speed of 0 is falsy: a
  payload that reports main.temp = 0 (or wind.speed = 0) gives the same reading as the
  payload without that field.
\<close>

theorem getWeather_falsy_to_null:
  "(axios_get (weatherUrl R region key) = Inr d \<and> \<not> nullish d \<longrightarrow>
      (\<exists>w. getWeather R key axios_get region = Inr w
         \<and> (\<not> truthy (opt_member (opt_member d ''main'') ''temp'') \<longrightarrow> temp w = Null)
         \<and> (\<not> truthy (opt_member (opt_member d ''wind'') ''speed'') \<longrightarrow> wind w = Null)
         \<and> (\<not> truthy (opt_member (opt_index0 (opt_member d ''weather'')) ''description'')
              \<longrightarrow> description w = Str ''Unknown'')))
   \<and> \<not> truthy (Num (Fin 0))
   \<and> (map_of m ''temp'' = None \<longrightarrow>
        readWeather (Obj [(''weather'', ws), (''main'', Obj ((''temp'', Num (Fin 0)) # m)), (''wind'', wd)])
        = readWeather (Obj [(''weather'', ws), (''main'', Obj m), (''wind'', wd)]))
   \<and> (map_of s ''speed'' = None \<longrightarrow>
        readWeather (Obj [(''weather'', ws), (''main'', mn), (''wind'', Obj ((''speed'', Num (Fin 0)) # s))])
        = readWeather (Obj [(''weather'', ws), (''main'', mn), (''wind'', Obj s)]))"
  by (simp add: getWeather_def readWeather_fields nullish_def js_or_def)

theorem getWeather_falsy_to_null_witness:
  "getWeather example_runtime (Str ''k'')
        (\<lambda>url. Inr (Obj [(''weather'', Arr [Obj [(''description'', Str [])]]),
                       (''main'', Obj [(''temp'', Num (Fin 0))]),
                       (''wind'', Obj [(''speed'', Num (Fin 0))])])) (Str ''Leh'')
      = Inr \<lparr>description = Str ''Unknown'', temp = Null, wind = Null\<rparr>
   \<and> readWeather (Obj [(''weather'', Arr []), (''main'', Obj [(''temp'', Num (Fin 0))]), (''wind'', Obj [])])
      = readWeather (Obj [(''weather'', Arr []), (''main'', Obj []), (''wind'', Obj [])])
   \<and> readWeather (Obj [(''weather'', Arr []), (''main'', Obj []), (''wind'', Obj [(''speed'', Num (Fin 0))])])
      = readWeather (Obj [(''weather'', Arr []), (''main'', Obj []), (''wind'', Obj [])])"
  using getWeather_falsy_to_null
    [of "\<lambda>url. Inr (Obj [(''weather'', Arr [Obj [(''description'', Str [])]]),
                       (''main'', Obj [(''temp'', Num (Fin 0))]),
                       (''wind'', Obj [(''speed'', Num (Fin 0))])])"
        example_runtime "Str ''Leh''" "Str ''k''"
        "Obj [(''weather'', Arr [Obj [(''description'', Str [])]]),
                       (''main'', Obj [(''temp'', Num (Fin 0))]),
                       (''wind'', Obj [(''speed'', Num (Fin 0))])]"
        "[]" "Arr []" "Obj []" "[]" "Obj []"]
  by (simp add: getWeather_def readWeather_def member_def nullish_def js_or_def)

section \<open>Properties of the servers\<close>

lemmas stub_defs = example_runtime_def decimal.simps stub_env_def stub_backends_def stub_query_def
  stub_payload_def stub_completion_def

lemmas pipeline_defs = getWeather_def readWeather_def getAlert_def member_def index0_def
  first_choice_content_def nullish_def js_or_def js_gt_def js_lt_def env_value_def lang_of_def
  Let_def sublist_code(3)

lemma bearer_prefix_drop: "prefix ''Bearer '' h \<Longrightarrow> h = ''Bearer '' @ drop 7 h"
  by (auto simp: prefix_def)

lemma auth_granted_iff:
  "authenticateBearer authHeader expectedToken = Next \<longleftrightarrow>
     (\<exists>s. expectedToken = Some s \<and> s \<noteq> [] \<and> authHeader = Some (''Bearer '' @ s))"
proof
  assume "authenticateBearer authHeader expectedToken = Next"
  then obtain h e where h: "authHeader = Some h" "prefix ''Bearer '' h"
      and e: "expectedToken = Some e" "e \<noteq> []" "drop 7 h = e"
    by (auto simp: authenticateBearer_def Let_def split: option.splits if_splits)
  from h(2) e(3) have "h = ''Bearer '' @ e" using bearer_prefix_drop by blast
  with h e show "\<exists>s. expectedToken = Some s \<and> s \<noteq> [] \<and> authHeader = Some (''Bearer '' @ s)"
    by blast
next
  assume "\<exists>s. expectedToken = Some s \<and> s \<noteq> [] \<and> authHeader = Some (''Bearer '' @ s)"
  then show "authenticateBearer authHeader expectedToken = Next"
    by (auto simp: authenticateBearer_def Let_def)
qed

text \<open>
  C3. The guard answers in a fixed order. A header that is absent or does not start with
  "Bearer " is refused with 401 "Bearer token required", whatever the configuration. Past
  that, an unset (or empty) MCP_BEARER_TOKEN is a 500 server error, whatever the token.
  Past that, a token that differs from the secret is refused with 401 "Invalid bearer
  token". The request passes exactly when a secret is configured and the header is
  "Bearer " followed by that secret: equality of strings, so case-sensitive and untrimmed.
\<close>

theorem authenticateBearer_check_order:
  "(authHeader = None \<or> (\<exists>h. authHeader = Some h \<and> \<not> prefix ''Bearer '' h) \<longrightarrow>
      authenticateBearer authHeader expectedToken =
        Responded \<lparr>status = 401, body = Obj [(''error'', Str ''Unauthorized''),
                                             (''message'', Str ''Bearer token required'')]\<rparr>)
   \<and> ((\<exists>h. authHeader = Some h \<and> prefix ''Bearer '' h)
        \<and> (expectedToken = None \<or> expectedToken = Some []) \<longrightarrow>
      authenticateBearer authHeader expectedToken =
        Responded \<lparr>status = 500, body = Obj [(''error'', Str ''Server configuration error''),
                                             (''message'', Str ''MCP_BEARER_TOKEN not configured'')]\<rparr>)
   \<and> ((\<exists>h s. authHeader = Some h \<and> prefix ''Bearer '' h \<and> expectedToken = Some s \<and> s \<noteq> []
              \<and> drop 7 h \<noteq> s) \<longrightarrow>
      authenticateBearer authHeader expectedToken =
        Responded \<lparr>status = 401, body = Obj [(''error'', Str ''Unauthorized''),
                                             (''message'', Str ''Invalid bearer token'')]\<rparr>)
   \<and> (authenticateBearer authHeader expectedToken = Next \<longleftrightarrow>
        (\<exists>s. expectedToken = Some s \<and> s \<noteq> [] \<and> authHeader = Some (''Bearer '' @ s)))"
proof -
  have missing: "authHeader = None \<or> (\<exists>h. authHeader = Some h \<and> \<not> prefix ''Bearer '' h) \<longrightarrow>
      authenticateBearer authHeader expectedToken =
        Responded \<lparr>status = 401, body = Obj [(''error'', Str ''Unauthorized''),
                                             (''message'', Str ''Bearer token required'')]\<rparr>"
    by (auto simp: authenticateBearer_def)
  have misconfigured: "(\<exists>h. authHeader = Some h \<and> prefix ''Bearer '' h)
        \<and> (expectedToken = None \<or> expectedToken = Some []) \<longrightarrow>
      authenticateBearer authHeader expectedToken =
        Responded \<lparr>status = 500, body = Obj [(''error'', Str ''Server configuration error''),
                                             (''message'', Str ''MCP_BEARER_TOKEN not configured'')]\<rparr>"
    by (auto simp: authenticateBearer_def)
  have invalid: "(\<exists>h s. authHeader = Some h \<and> prefix ''Bearer '' h \<and> expectedToken = Some s \<and> s \<noteq> []
              \<and> drop 7 h \<noteq> s) \<longrightarrow>
      authenticateBearer authHeader expectedToken =
        Responded \<lparr>status = 401, body = Obj [(''error'', Str ''Unauthorized''),
                                             (''message'', Str ''Invalid bearer token'')]\<rparr>"
    by (auto simp: authenticateBearer_def)
  from missing misconfigured invalid auth_granted_iff [of authHeader expectedToken]
  show ?thesis by blast
qed

theorem authenticateBearer_check_order_witness:
  "authenticateBearer None None =
        Responded \<lparr>status = 401, body = Obj [(''error'', Str ''Unauthorized''),
                                             (''message'', Str ''Bearer token required'')]\<rparr>
   \<and> authenticateBearer (Some ''Basic s3cret'') None =
        Responded \<lparr>status = 401, body = Obj [(''error'', Str ''Unauthorized''),
                                             (''message'', Str ''Bearer token required'')]\<rparr>
   \<and> authenticateBearer (Some ''Bearer s3cret'') None =
        Responded \<lparr>status = 500, body = Obj [(''error'', Str ''Server configuration error''),
                                             (''message'', Str ''MCP_BEARER_TOKEN not configured'')]\<rparr>
   \<and> authenticateBearer (Some ''Bearer S3cret'') (Some ''s3cret'') =
        Responded \<lparr>status = 401, body = Obj [(''error'', Str ''Unauthorized''),
                                             (''message'', Str ''Invalid bearer token'')]\<rparr>
   \<and> authenticateBearer (Some ''Bearer s3cret'') (Some ''s3cret'') = Next
   \<and> authenticateBearer (Some ''Bearer s3cret '') (Some ''s3cret'') \<noteq> Next
   \<and> authenticateBearer (Some ''bearer s3cret'') (Some ''s3cret'') \<noteq> Next"
  using authenticateBearer_check_order [of None None]
    authenticateBearer_check_order [of "Some ''Basic s3cret''" None]
    authenticateBearer_check_order [of "Some ''Bearer s3cret''" None]
    authenticateBearer_check_order [of "Some ''Bearer S3cret''" "Some ''s3cret''"]
    authenticateBearer_check_order [of "Some ''Bearer s3cret''" "Some ''s3cret''"]
    authenticateBearer_check_order [of "Some ''Bearer s3cret ''" "Some ''s3cret''"]
    authenticateBearer_check_order [of "Some ''bearer s3cret''" "Some ''s3cret''"]
  by simp

text \<open>
  C4. When crop or region is falsy (missing, or the empty string), each of the three
  handlers answers 400 and its log of upstream calls is empty: neither provider was
  called. Through the guarded routes the log is empty as well.
\<close>

theorem missing_params_no_upstream_call:
  "\<not> truthy (q_crop q) \<or> \<not> truthy (q_region q) \<Longrightarrow>
     handler_auth R E B A q =
       (\<lparr>status = 400, body = Obj
           [(''error'', Str ''Missing parameters''),
            (''message'', Str ''Both crop and region parameters are required'')]\<rparr>, [])
     \<and> status (fst (handler_rich R E B A q)) = 400 \<and> snd (handler_rich R E B A q) = []
     \<and> status (fst (handler_basic R E B q)) = 400 \<and> snd (handler_basic R E B q) = []
     \<and> snd (route_auth R E B A authHeader q) = []
     \<and> snd (route_rich R E B A authHeader q) = []"
  by (auto simp: handler_auth_def handler_rich_def handler_basic_def route_auth_def route_rich_def
      Let_def split: middleware_result.splits)

theorem missing_params_no_upstream_call_witness:
  "\<not> truthy Undefined \<and> \<not> truthy (Str [])
   \<and> handler_auth example_runtime stub_env stub_backends \<lparr>clock_now = ''t'', random36 = ''r''\<rparr>
        \<lparr>q_crop = Str ''wheat'', q_region = Undefined, q_lang = Str ''hi''\<rparr> =
       (\<lparr>status = 400, body = Obj
           [(''error'', Str ''Missing parameters''),
            (''message'', Str ''Both crop and region parameters are required'')]\<rparr>, [])
   \<and> snd (handler_basic example_runtime stub_env stub_backends
        \<lparr>q_crop = Str [], q_region = Str ''Pune'', q_lang = Undefined\<rparr>) = []"
  using missing_params_no_upstream_call
      [of "\<lparr>q_crop = Str ''wheat'', q_region = Undefined, q_lang = Str ''hi''\<rparr>"
          example_runtime stub_env stub_backends "\<lparr>clock_now = ''t'', random36 = ''r''\<rparr>" None]
    missing_params_no_upstream_call
      [of "\<lparr>q_crop = Str [], q_region = Str ''Pune'', q_lang = Undefined\<rparr>"
          example_runtime stub_env stub_backends "\<lparr>clock_now = ''t'', random36 = ''r''\<rparr>" None]
  by simp

text \<open>
  C5. In the authenticated server, when the weather fetch throws an error whose
  \<open>response.status\<close> is 404, the handler answers 404 and its message ends with the
  region of the request; when the status is 401, it answers 500 with the error "Weather API
  authentication failed" and a message that points at OPENWEATHER_API_KEY. In both cases
  the generation provider is not called.
\<close>

theorem weather_failure_mapping:
  "truthy (q_crop q) \<Longrightarrow> truthy (q_region q) \<Longrightarrow>
   be_axios_get B (weatherUrl R (q_region q) (env_value (OPENWEATHER_API_KEY E))) = Inl err \<Longrightarrow>
     (err_response_status err = Num (Fin 404) \<longrightarrow>
        handler_auth R E B A q =
          (\<lparr>status = 404, body = Obj
              [(''error'', Str ''Location not found''),
               (''message'', Str (''Unable to find weather data for region: ''
                                  @ ToString R (q_region q)))]\<rparr>,
           [WeatherCall (weatherUrl R (q_region q) (env_value (OPENWEATHER_API_KEY E)))])
        \<and> sublist (ToString R (q_region q))
             (''Unable to find weather data for region: '' @ ToString R (q_region q)))
   \<and> (err_response_status err = Num (Fin 401) \<longrightarrow>
        handler_auth R E B A q =
          (\<lparr>status = 500, body = Obj
              [(''error'', Str ''Weather API authentication failed''),
               (''message'', Str ''Please check OPENWEATHER_API_KEY configuration'')]\<rparr>,
           [WeatherCall (weatherUrl R (q_region q) (env_value (OPENWEATHER_API_KEY E)))]))"
proof -
  assume "truthy (q_crop q)" "truthy (q_region q)"
    and "be_axios_get B (weatherUrl R (q_region q) (env_value (OPENWEATHER_API_KEY E))) = Inl err"
  then have thrown: "try_auth R E B A (q_crop q) (q_region q) (lang_of q) =
      (Inl err, [WeatherCall (weatherUrl R (q_region q) (env_value (OPENWEATHER_API_KEY E)))])"
    by (simp add: try_auth_def getWeather_def Let_def)
  have echoed: "sublist (ToString R (q_region q))
             (''Unable to find weather data for region: '' @ ToString R (q_region q))"
    by (rule sublist_append_leftI)
  from thrown \<open>truthy (q_crop q)\<close> \<open>truthy (q_region q)\<close> echoed
  show ?thesis
    by (simp only: handler_auth_def catch_auth_def Let_def) simp
qed

theorem weather_failure_mapping_witness:
  "handler_auth example_runtime stub_env
      \<lparr>be_axios_get = (\<lambda>url. Inl \<lparr>err_response_status = Num (Fin 404), err_code = Str ''ERR_BAD_REQUEST'',
                                    err_message = Str ''Request failed with status code 404''\<rparr>),
        be_chat_create = (\<lambda>request. Inr stub_completion)\<rparr>
      \<lparr>clock_now = ''t'', random36 = ''r''\<rparr> stub_query =
     (\<lparr>status = 404, body = Obj
         [(''error'', Str ''Location not found''),
          (''message'', Str ''Unable to find weather data for region: Pune'')]\<rparr>,
      [WeatherCall ''https://api.openweathermap.org/data/2.5/weather?q=Pune&appid=k&units=metric''])
   \<and> handler_auth example_runtime stub_env
      \<lparr>be_axios_get = (\<lambda>url. Inl \<lparr>err_response_status = Num (Fin 401), err_code = Str ''ERR_BAD_REQUEST'',
                                    err_message = Str ''Request failed with status code 401''\<rparr>),
        be_chat_create = (\<lambda>request. Inr stub_completion)\<rparr>
      \<lparr>clock_now = ''t'', random36 = ''r''\<rparr> stub_query =
     (\<lparr>status = 500, body = Obj
         [(''error'', Str ''Weather API authentication failed''),
          (''message'', Str ''Please check OPENWEATHER_API_KEY configuration'')]\<rparr>,
      [WeatherCall ''https://api.openweathermap.org/data/2.5/weather?q=Pune&appid=k&units=metric''])"
  using weather_failure_mapping
     [of stub_query
         "\<lparr>be_axios_get = (\<lambda>url. Inl \<lparr>err_response_status = Num (Fin 404), err_code = Str ''ERR_BAD_REQUEST'',
                                    err_message = Str ''Request failed with status code 404''\<rparr>),
           be_chat_create = (\<lambda>request. Inr stub_completion)\<rparr>"
         example_runtime stub_env
         "\<lparr>err_response_status = Num (Fin 404), err_code = Str ''ERR_BAD_REQUEST'',
                                    err_message = Str ''Request failed with status code 404''\<rparr>"
         "\<lparr>clock_now = ''t'', random36 = ''r''\<rparr>"]
    weather_failure_mapping
     [of stub_query
         "\<lparr>be_axios_get = (\<lambda>url. Inl \<lparr>err_response_status = Num (Fin 401), err_code = Str ''ERR_BAD_REQUEST'',
                                    err_message = Str ''Request failed with status code 401''\<rparr>),
           be_chat_create = (\<lambda>request. Inr stub_completion)\<rparr>"
         example_runtime stub_env
         "\<lparr>err_response_status = Num (Fin 401), err_code = Str ''ERR_BAD_REQUEST'',
                                    err_message = Str ''Request failed with status code 401''\<rparr>"
         "\<lparr>clock_now = ''t'', random36 = ''r''\<rparr>"]
  by (simp add: stub_defs weatherUrl_def env_value_def)

text \<open>
  C6. In the richer server, when the weather stage has succeeded and the generation call
  throws an error whose \<open>code\<close> is "insufficient_quota" (and which carries no
  \<open>response.status\<close> of 404, the test the catch block makes first), the handler answers
  503 "Service temporarily unavailable". An error with neither mark is answered with 500.
\<close>

theorem quota_exhaustion_503:
  "truthy (q_crop q) \<Longrightarrow> truthy (q_region q) \<Longrightarrow>
   getWeather R (env_value (OPENWEATHER_API_KEY E)) (be_axios_get B) (q_region q) = Inr w \<Longrightarrow>
   getAlert R w = Inr emergency \<Longrightarrow>
   be_chat_create B (chat_request_rich
       (prompt_rich R (q_crop q) (q_region q) w emergency (lang_of q))) = Inl err \<Longrightarrow>
   err_code err = Str ''insufficient_quota'' \<Longrightarrow>
   err_response_status err \<noteq> Num (Fin 404) \<Longrightarrow>
     fst (handler_rich R E B A q) =
        \<lparr>status = 503, body = Obj
           [(''success'', Bool False),
            (''error'', Str ''Service temporarily unavailable''),
            (''message'', Str ''AI service quota exceeded. Please try again later.'')]\<rparr>
     \<and> (\<forall>other. err_code other \<noteq> Str ''insufficient_quota''
            \<and> err_response_status other \<noteq> Num (Fin 404)
          \<longrightarrow> status (catch_rich R E (q_region q) other) = 500)"
  by (simp add: handler_rich_def try_rich_def catch_rich_def Let_def)

theorem quota_exhaustion_503_witness:
  "fst (handler_rich example_runtime stub_env
      \<lparr>be_axios_get = (\<lambda>url. Inr stub_payload),
        be_chat_create = (\<lambda>request. Inl \<lparr>err_response_status = Undefined,
               err_code = Str ''insufficient_quota'',
               err_message = Str ''You exceeded your current quota''\<rparr>)\<rparr>
      \<lparr>clock_now = ''t'', random36 = ''r''\<rparr> stub_query) =
        \<lparr>status = 503, body = Obj
           [(''success'', Bool False),
            (''error'', Str ''Service temporarily unavailable''),
            (''message'', Str ''AI service quota exceeded. Please try again later.'')]\<rparr>
   \<and> status (catch_rich example_runtime stub_env (Str ''Pune'')
        \<lparr>err_response_status = Undefined, err_code = Undefined,
         err_message = Str ''boom''\<rparr>) = 500"
  using quota_exhaustion_503
     [of stub_query example_runtime stub_env
         "\<lparr>be_axios_get = (\<lambda>url. Inr stub_payload),
        be_chat_create = (\<lambda>request. Inl \<lparr>err_response_status = Undefined,
               err_code = Str ''insufficient_quota'',
               err_message = Str ''You exceeded your current quota''\<rparr>)\<rparr>"
         "\<lparr>description = Str ''light rain'', temp = Num (Fin 20), wind = Num (Fin 5)\<rparr>"
         rain_message
         "\<lparr>err_response_status = Undefined,
               err_code = Str ''insufficient_quota'',
               err_message = Str ''You exceeded your current quota''\<rparr>"
         "\<lparr>clock_now = ''t'', random36 = ''r''\<rparr>"]
  by (simp add: stub_defs pipeline_defs)

lemma sublist_later: "sublist x r \<Longrightarrow> sublist x (a @ r)"
  by (metis append.assoc sublist_def)

lemma context_step:
  "(\<exists>pre suf. \<forall>l. g l = pre @ f l @ suf) \<Longrightarrow> (\<exists>pre suf. \<forall>l. a @ g l = pre @ f l @ suf)"
proof -
  assume "\<exists>pre suf. \<forall>l. g l = pre @ f l @ suf"
  then obtain pre suf where "\<forall>l. g l = pre @ f l @ suf" by blast
  then have "\<forall>l. a @ g l = (a @ pre) @ f l @ suf" by simp
  then show ?thesis by blast
qed

lemma context_base: "\<exists>pre suf. \<forall>l. f l @ b = pre @ f l @ suf"
proof -
  have "\<forall>l. f l @ b = [] @ f l @ b" by simp
  then show ?thesis by blast
qed

lemma prompt_auth_context:
  "\<exists>pre suf. \<forall>lang. prompt_auth R crop region w emergency lang = pre @ language_auth lang @ suf"
  unfolding prompt_auth_def by (intro context_step, rule context_base)

lemma prompt_rich_context:
  "\<exists>pre suf. \<forall>lang. prompt_rich R crop region w emergency lang = pre @ language_rich lang @ suf"
  unfolding prompt_rich_def by (intro context_step, rule context_base)

lemma prompt_basic_context:
  "\<exists>pre suf. \<forall>lang. prompt_basic R crop w emergency lang = pre @ language_basic lang @ suf"
  unfolding prompt_basic_def by (intro context_step, rule context_base)

lemma prompt_auth_embeds:
  "sublist (ToString R (description w)) (prompt_auth R crop region w emergency lang)"
  "sublist (ToString R (temp w)) (prompt_auth R crop region w emergency lang)"
  "sublist (ToString R (wind w)) (prompt_auth R crop region w emergency lang)"
  "sublist (ToString R crop) (prompt_auth R crop region w emergency lang)"
  "sublist (ToString R region) (prompt_auth R crop region w emergency lang)"
  "sublist emergency (prompt_auth R crop region w emergency lang)"
  "sublist (language_auth lang) (prompt_auth R crop region w emergency lang)"
  unfolding prompt_auth_def by ((rule sublist_append_rightI | rule sublist_later)+)+

lemma prompt_rich_embeds:
  "sublist (ToString R (description w)) (prompt_rich R crop region w emergency lang)"
  "sublist (ToString R (temp w)) (prompt_rich R crop region w emergency lang)"
  "sublist (ToString R (wind w)) (prompt_rich R crop region w emergency lang)"
  "sublist (ToString R crop) (prompt_rich R crop region w emergency lang)"
  "sublist (ToString R region) (prompt_rich R crop region w emergency lang)"
  "sublist emergency (prompt_rich R crop region w emergency lang)"
  "sublist (language_rich lang) (prompt_rich R crop region w emergency lang)"
  unfolding prompt_rich_def by ((rule sublist_append_rightI | rule sublist_later)+)+

lemma prompt_basic_embeds:
  "sublist (ToString R (description w)) (prompt_basic R crop w emergency lang)"
  "sublist (ToString R (temp w)) (prompt_basic R crop w emergency lang)"
  "sublist (ToString R (wind w)) (prompt_basic R crop w emergency lang)"
  "sublist (ToString R crop) (prompt_basic R crop w emergency lang)"
  "sublist emergency (prompt_basic R crop w emergency lang)"
  "sublist (language_basic lang) (prompt_basic R crop w emergency lang)"
  unfolding prompt_basic_def by ((rule sublist_append_rightI | rule sublist_later)+)+

text \<open>
  C7, as the code has it. In the authenticated and the richer server the prompt contains
  the printed description, temperature and wind speed (null prints as "null"), the crop,
  the region, the alert and a language instruction, which is "Hindi (Devanagari script)"
  (richer server: "Hindi (use Devanagari script)") for the language "hi" and "English" for
  every other value. In the basic server the prompt contains the same except the region,
  and its instruction for "hi" is "Hindi".
\<close>

theorem prompt_embeds_inputs:
  "sublist (ToString R (description w)) (prompt_auth R crop region w emergency lang)
   \<and> sublist (ToString R (temp w)) (prompt_auth R crop region w emergency lang)
   \<and> sublist (ToString R (wind w)) (prompt_auth R crop region w emergency lang)
   \<and> sublist (ToString R crop) (prompt_auth R crop region w emergency lang)
   \<and> sublist (ToString R region) (prompt_auth R crop region w emergency lang)
   \<and> sublist emergency (prompt_auth R crop region w emergency lang)
   \<and> sublist (language_auth lang) (prompt_auth R crop region w emergency lang)
   \<and> language_auth lang = (if lang = Str ''hi'' then ''Hindi (Devanagari script)'' else ''English'')
   \<and> sublist (ToString R (description w)) (prompt_rich R crop region w emergency lang)
   \<and> sublist (ToString R (temp w)) (prompt_rich R crop region w emergency lang)
   \<and> sublist (ToString R (wind w)) (prompt_rich R crop region w emergency lang)
   \<and> sublist (ToString R crop) (prompt_rich R crop region w emergency lang)
   \<and> sublist (ToString R region) (prompt_rich R crop region w emergency lang)
   \<and> sublist emergency (prompt_rich R crop region w emergency lang)
   \<and> sublist (language_rich lang) (prompt_rich R crop region w emergency lang)
   \<and> language_rich lang = (if lang = Str ''hi'' then ''Hindi (use Devanagari script)'' else ''English'')
   \<and> sublist (ToString R (description w)) (prompt_basic R crop w emergency lang)
   \<and> sublist (ToString R (temp w)) (prompt_basic R crop w emergency lang)
   \<and> sublist (ToString R (wind w)) (prompt_basic R crop w emergency lang)
   \<and> sublist (ToString R crop) (prompt_basic R crop w emergency lang)
   \<and> sublist emergency (prompt_basic R crop w emergency lang)
   \<and> sublist (language_basic lang) (prompt_basic R crop w emergency lang)
   \<and> language_basic lang = (if lang = Str ''hi'' then ''Hindi'' else ''English'')
   \<and> ToString R Null = ''null''"
  using prompt_auth_embeds prompt_rich_embeds prompt_basic_embeds
  by (simp add: language_auth_def language_rich_def language_basic_def)

text \<open>
  C7 as stated fails in the basic server: for the request crop=wheat, region=Pune, lang=hi
  the prompt sent to the generation provider contains neither the region nor a mention of
  the Devanagari script.
\<close>

theorem prompt_basic_region_counterexample:
  "snd (handler_basic example_runtime stub_env stub_backends
         \<lparr>q_crop = Str ''wheat'', q_region = Str ''Pune'', q_lang = Str ''hi''\<rparr>) =
     [WeatherCall ''https://api.openweathermap.org/data/2.5/weather?q=Pune&appid=k&units=metric'',
      GenerationCall (chat_request_basic (prompt_basic example_runtime (Str ''wheat'')
        \<lparr>description = Str ''light rain'', temp = Num (Fin 20), wind = Num (Fin 5)\<rparr>
        rain_message (Str ''hi'')))]
   \<and> \<not> sublist ''Pune''
        (prompt_basic example_runtime (Str ''wheat'')
          \<lparr>description = Str ''light rain'', temp = Num (Fin 20), wind = Num (Fin 5)\<rparr>
          rain_message (Str ''hi''))
   \<and> \<not> sublist ''Devanagari''
        (prompt_basic example_runtime (Str ''wheat'')
          \<lparr>description = Str ''light rain'', temp = Num (Fin 20), wind = Num (Fin 5)\<rparr>
          rain_message (Str ''hi''))
   \<and> prompt_basic example_runtime (Str ''wheat'')
          \<lparr>description = Str ''light rain'', temp = Num (Fin 20), wind = Num (Fin 5)\<rparr>
          rain_message (Str ''hi'') =
        nl @ ''      You are a farming assistant.'' @ nl
        @ ''      Weather: light rain, Temperature: 20'' @ degree @ ''C, Wind Speed: 5 km/h'' @ nl
        @ ''      Crop: wheat'' @ nl
        @ ''      Emergency alert: Heavy rain expected '' @ emdash @ '' ensure proper drainage.'' @ nl
        @ ''      Give a short, practical farming tip for this situation.'' @ nl
        @ ''      Language: Hindi'' @ nl
        @ ''    ''"
proof -
  have built: "prompt_basic example_runtime (Str ''wheat'')
          \<lparr>description = Str ''light rain'', temp = Num (Fin 20), wind = Num (Fin 5)\<rparr>
          rain_message (Str ''hi'') =
        nl @ ''      You are a farming assistant.'' @ nl
        @ ''      Weather: light rain, Temperature: 20'' @ degree @ ''C, Wind Speed: 5 km/h'' @ nl
        @ ''      Crop: wheat'' @ nl
        @ ''      Emergency alert: Heavy rain expected '' @ emdash @ '' ensure proper drainage.'' @ nl
        @ ''      Give a short, practical farming tip for this situation.'' @ nl
        @ ''      Language: Hindi'' @ nl
        @ ''    ''"
    by (simp add: prompt_basic_def example_runtime_def decimal.simps rain_message_def
          language_basic_def)
  have log: "snd (handler_basic example_runtime stub_env stub_backends
         \<lparr>q_crop = Str ''wheat'', q_region = Str ''Pune'', q_lang = Str ''hi''\<rparr>) =
     [WeatherCall ''https://api.openweathermap.org/data/2.5/weather?q=Pune&appid=k&units=metric'',
      GenerationCall (chat_request_basic (prompt_basic example_runtime (Str ''wheat'')
        \<lparr>description = Str ''light rain'', temp = Num (Fin 20), wind = Num (Fin 5)\<rparr>
        rain_message (Str ''hi'')))]"
    by (simp add: handler_basic_def try_basic_def stub_defs pipeline_defs weatherUrl_def)
  have region: "\<not> sublist ''Pune''
        (prompt_basic example_runtime (Str ''wheat'')
          \<lparr>description = Str ''light rain'', temp = Num (Fin 20), wind = Num (Fin 5)\<rparr>
          rain_message (Str ''hi''))"
    by (simp add: prompt_basic_def example_runtime_def decimal.simps rain_message_def emdash_def nl_def
          degree_def language_basic_def sublist_code(3))
  have script: "\<not> sublist ''Devanagari''
        (prompt_basic example_runtime (Str ''wheat'')
          \<lparr>description = Str ''light rain'', temp = Num (Fin 20), wind = Num (Fin 5)\<rparr>
          rain_message (Str ''hi''))"
    by (simp add: prompt_basic_def example_runtime_def decimal.simps rain_message_def emdash_def nl_def
          degree_def language_basic_def sublist_code(3))
  from log region script built show ?thesis by blast
qed

lemma handler_auth_calls:
  "snd (handler_auth R E B A q) =
     (if \<not> truthy (q_crop q) \<or> \<not> truthy (q_region q) then []
      else case getWeather R (env_value (OPENWEATHER_API_KEY E)) (be_axios_get B) (q_region q) of
             Inl err \<Rightarrow> [WeatherCall (weatherUrl R (q_region q) (env_value (OPENWEATHER_API_KEY E)))]
           | Inr w \<Rightarrow>
              (case getAlert R w of
                 Inl err \<Rightarrow> [WeatherCall (weatherUrl R (q_region q) (env_value (OPENWEATHER_API_KEY E)))]
               | Inr emergency \<Rightarrow>
                   [WeatherCall (weatherUrl R (q_region q) (env_value (OPENWEATHER_API_KEY E))),
                    GenerationCall (chat_request_auth
                      (prompt_auth R (q_crop q) (q_region q) w emergency (lang_of q)))]))"
  by (simp add: handler_auth_def try_auth_def Let_def split: sum.splits prod.splits)

lemma handler_rich_calls:
  "snd (handler_rich R E B A q) =
     (if \<not> truthy (q_crop q) \<or> \<not> truthy (q_region q) then []
      else case getWeather R (env_value (OPENWEATHER_API_KEY E)) (be_axios_get B) (q_region q) of
             Inl err \<Rightarrow> [WeatherCall (weatherUrl R (q_region q) (env_value (OPENWEATHER_API_KEY E)))]
           | Inr w \<Rightarrow>
              (case getAlert R w of
                 Inl err \<Rightarrow> [WeatherCall (weatherUrl R (q_region q) (env_value (OPENWEATHER_API_KEY E)))]
               | Inr emergency \<Rightarrow>
                   [WeatherCall (weatherUrl R (q_region q) (env_value (OPENWEATHER_API_KEY E))),
                    GenerationCall (chat_request_rich
                      (prompt_rich R (q_crop q) (q_region q) w emergency (lang_of q)))]))"
  by (simp add: handler_rich_def try_rich_def Let_def split: sum.splits prod.splits)

lemma handler_basic_calls:
  "snd (handler_basic R E B q) =
     (if \<not> truthy (q_crop q) \<or> \<not> truthy (q_region q) then []
      else case getWeather R (env_value (OPENWEATHER_API_KEY E)) (be_axios_get B) (q_region q) of
             Inl err \<Rightarrow> [WeatherCall (weatherUrl R (q_region q) (env_value (OPENWEATHER_API_KEY E)))]
           | Inr w \<Rightarrow>
              (case getAlert R w of
                 Inl err \<Rightarrow> [WeatherCall (weatherUrl R (q_region q) (env_value (OPENWEATHER_API_KEY E)))]
               | Inr emergency \<Rightarrow>
                   [WeatherCall (weatherUrl R (q_region q) (env_value (OPENWEATHER_API_KEY E))),
                    GenerationCall (chat_request_basic
                      (prompt_basic R (q_crop q) w emergency (lang_of q)))]))"
  by (simp add: handler_basic_def try_basic_def Let_def split: sum.splits prod.splits)

text \<open>
  Two requests with the same crop and region: either neither reaches the generation
  provider and their logs are equal, or both do, with prompts that share one context.
\<close>

lemma auth_requests_share_context:
  assumes "q_crop q1 = q_crop q2" and "q_region q1 = q_region q2"
  shows "\<exists>url pre suf.
     (length (snd (handler_auth R E B A q1)) \<le> 1
        \<and> snd (handler_auth R E B A q1) = snd (handler_auth R E B A q2))
     \<or> (snd (handler_auth R E B A q1) =
           [WeatherCall url,
            GenerationCall (chat_request_auth (pre @ language_auth (lang_of q1) @ suf))]
         \<and> snd (handler_auth R E B A q2) =
           [WeatherCall url,
            GenerationCall (chat_request_auth (pre @ language_auth (lang_of q2) @ suf))])"
proof (cases "\<exists>w emergency.
    truthy (q_crop q1) \<and> truthy (q_region q1)
    \<and> getWeather R (env_value (OPENWEATHER_API_KEY E)) (be_axios_get B) (q_region q1) = Inr w
    \<and> getAlert R w = Inr emergency")
  case True
  then obtain w emergency where reach: "truthy (q_crop q1)" "truthy (q_region q1)"
      "getWeather R (env_value (OPENWEATHER_API_KEY E)) (be_axios_get B) (q_region q1) = Inr w"
      "getAlert R w = Inr emergency"
    by blast
  obtain pre suf where ctx:
    "\<forall>lang. prompt_auth R (q_crop q1) (q_region q1) w emergency lang = pre @ language_auth lang @ suf"
    using prompt_auth_context by blast
  from reach assms ctx have
    "snd (handler_auth R E B A q1) =
       [WeatherCall (weatherUrl R (q_region q1) (env_value (OPENWEATHER_API_KEY E))),
        GenerationCall (chat_request_auth (pre @ language_auth (lang_of q1) @ suf))]"
    "snd (handler_auth R E B A q2) =
       [WeatherCall (weatherUrl R (q_region q1) (env_value (OPENWEATHER_API_KEY E))),
        GenerationCall (chat_request_auth (pre @ language_auth (lang_of q2) @ suf))]"
    by (simp_all add: handler_auth_calls)
  then show ?thesis by blast
next
  case False
  with assms have "length (snd (handler_auth R E B A q1)) \<le> 1
        \<and> snd (handler_auth R E B A q1) = snd (handler_auth R E B A q2)"
    by (auto simp add: handler_auth_calls split: sum.splits)
  then show ?thesis by blast
qed

lemma rich_requests_share_context:
  assumes "q_crop q1 = q_crop q2" and "q_region q1 = q_region q2"
  shows "\<exists>url pre suf.
     (length (snd (handler_rich R E B A q1)) \<le> 1
        \<and> snd (handler_rich R E B A q1) = snd (handler_rich R E B A q2))
     \<or> (snd (handler_rich R E B A q1) =
           [WeatherCall url,
            GenerationCall (chat_request_rich (pre @ language_rich (lang_of q1) @ suf))]
         \<and> snd (handler_rich R E B A q2) =
           [WeatherCall url,
            GenerationCall (chat_request_rich (pre @ language_rich (lang_of q2) @ suf))])"
proof (cases "\<exists>w emergency.
    truthy (q_crop q1) \<and> truthy (q_region q1)
    \<and> getWeather R (env_value (OPENWEATHER_API_KEY E)) (be_axios_get B) (q_region q1) = Inr w
    \<and> getAlert R w = Inr emergency")
  case True
  then obtain w emergency where reach: "truthy (q_crop q1)" "truthy (q_region q1)"
      "getWeather R (env_value (OPENWEATHER_API_KEY E)) (be_axios_get B) (q_region q1) = Inr w"
      "getAlert R w = Inr emergency"
    by blast
  obtain pre suf where ctx:
    "\<forall>lang. prompt_rich R (q_crop q1) (q_region q1) w emergency lang = pre @ language_rich lang @ suf"
    using prompt_rich_context by blast
  from reach assms ctx have
    "snd (handler_rich R E B A q1) =
       [WeatherCall (weatherUrl R (q_region q1) (env_value (OPENWEATHER_API_KEY E))),
        GenerationCall (chat_request_rich (pre @ language_rich (lang_of q1) @ suf))]"
    "snd (handler_rich R E B A q2) =
       [WeatherCall (weatherUrl R (q_region q1) (env_value (OPENWEATHER_API_KEY E))),
        GenerationCall (chat_request_rich (pre @ language_rich (lang_of q2) @ suf))]"
    by (simp_all add: handler_rich_calls)
  then show ?thesis by blast
next
  case False
  with assms have "length (snd (handler_rich R E B A q1)) \<le> 1
        \<and> snd (handler_rich R E B A q1) = snd (handler_rich R E B A q2)"
    by (auto simp add: handler_rich_calls split: sum.splits)
  then show ?thesis by blast
qed

lemma basic_requests_share_context:
  assumes "q_crop q1 = q_crop q2" and "q_region q1 = q_region q2"
  shows "\<exists>url pre suf.
     (length (snd (handler_basic R E B q1)) \<le> 1
        \<and> snd (handler_basic R E B q1) = snd (handler_basic R E B q2))
     \<or> (snd (handler_basic R E B q1) =
           [WeatherCall url,
            GenerationCall (chat_request_basic (pre @ language_basic (lang_of q1) @ suf))]
         \<and> snd (handler_basic R E B q2) =
           [WeatherCall url,
            GenerationCall (chat_request_basic (pre @ language_basic (lang_of q2) @ suf))])"
proof (cases "\<exists>w emergency.
    truthy (q_crop q1) \<and> truthy (q_region q1)
    \<and> getWeather R (env_value (OPENWEATHER_API_KEY E)) (be_axios_get B) (q_region q1) = Inr w
    \<and> getAlert R w = Inr emergency")
  case True
  then obtain w emergency where reach: "truthy (q_crop q1)" "truthy (q_region q1)"
      "getWeather R (env_value (OPENWEATHER_API_KEY E)) (be_axios_get B) (q_region q1) = Inr w"
      "getAlert R w = Inr emergency"
    by blast
  obtain pre suf where ctx:
    "\<forall>lang. prompt_basic R (q_crop q1) w emergency lang = pre @ language_basic lang @ suf"
    using prompt_basic_context by blast
  from reach assms ctx have
    "snd (handler_basic R E B q1) =
       [WeatherCall (weatherUrl R (q_region q1) (env_value (OPENWEATHER_API_KEY E))),
        GenerationCall (chat_request_basic (pre @ language_basic (lang_of q1) @ suf))]"
    "snd (handler_basic R E B q2) =
       [WeatherCall (weatherUrl R (q_region q1) (env_value (OPENWEATHER_API_KEY E))),
        GenerationCall (chat_request_basic (pre @ language_basic (lang_of q2) @ suf))]"
    by (simp_all add: handler_basic_calls)
  then show ?thesis by blast
next
  case False
  with assms have "length (snd (handler_basic R E B q1)) \<le> 1
        \<and> snd (handler_basic R E B q1) = snd (handler_basic R E B q2)"
    by (auto simp add: handler_basic_calls split: sum.splits)
  then show ?thesis by blast
qed

text \<open>
  C8. In each server the prompt is a fixed context around the language instruction: the
  text before and the text after it depend on crop, region, weather and alert only, and
  the instruction depends on the language only through the test \<open>lang === "hi"\<close>. For
  two requests with the same crop and region, processed with the same configuration and
  providers, either neither builds a prompt (their upstream calls are the same), or the
  two prompts sent to the generation provider are that one context around the two
  instructions.
\<close>

theorem language_changes_only_instruction:
  "(\<exists>pre suf. \<forall>lang. prompt_auth R crop region w emergency lang = pre @ language_auth lang @ suf)
   \<and> (\<exists>pre suf. \<forall>lang. prompt_rich R crop region w emergency lang = pre @ language_rich lang @ suf)
   \<and> (\<exists>pre suf. \<forall>lang. prompt_basic R crop w emergency lang = pre @ language_basic lang @ suf)
   \<and> (\<forall>lang. language_auth lang = language_auth (if lang = Str ''hi'' then Str ''hi'' else Str ''en'')
          \<and> language_rich lang = language_rich (if lang = Str ''hi'' then Str ''hi'' else Str ''en'')
          \<and> language_basic lang = language_basic (if lang = Str ''hi'' then Str ''hi'' else Str ''en''))
   \<and> language_auth (Str ''hi'') \<noteq> language_auth (Str ''en'')
   \<and> language_rich (Str ''hi'') \<noteq> language_rich (Str ''en'')
   \<and> language_basic (Str ''hi'') \<noteq> language_basic (Str ''en'')
   \<and> (q_crop q1 = q_crop q2 \<and> q_region q1 = q_region q2 \<longrightarrow>
        (\<exists>url pre suf.
           (length (snd (handler_auth R E B A q1)) \<le> 1
              \<and> snd (handler_auth R E B A q1) = snd (handler_auth R E B A q2))
           \<or> (snd (handler_auth R E B A q1) =
                 [WeatherCall url,
                  GenerationCall (chat_request_auth (pre @ language_auth (lang_of q1) @ suf))]
               \<and> snd (handler_auth R E B A q2) =
                 [WeatherCall url,
                  GenerationCall (chat_request_auth (pre @ language_auth (lang_of q2) @ suf))]))
        \<and> (\<exists>url pre suf.
           (length (snd (handler_rich R E B A q1)) \<le> 1
              \<and> snd (handler_rich R E B A q1) = snd (handler_rich R E B A q2))
           \<or> (snd (handler_rich R E B A q1) =
                 [WeatherCall url,
                  GenerationCall (chat_request_rich (pre @ language_rich (lang_of q1) @ suf))]
               \<and> snd (handler_rich R E B A q2) =
                 [WeatherCall url,
                  GenerationCall (chat_request_rich (pre @ language_rich (lang_of q2) @ suf))]))
        \<and> (\<exists>url pre suf.
           (length (snd (handler_basic R E B q1)) \<le> 1
              \<and> snd (handler_basic R E B q1) = snd (handler_basic R E B q2))
           \<or> (snd (handler_basic R E B q1) =
                 [WeatherCall url,
                  GenerationCall (chat_request_basic (pre @ language_basic (lang_of q1) @ suf))]
               \<and> snd (handler_basic R E B q2) =
                 [WeatherCall url,
                  GenerationCall (chat_request_basic (pre @ language_basic (lang_of q2) @ suf))])))"
proof -
  have prompts:
    "\<exists>pre suf. \<forall>lang. prompt_auth R crop region w emergency lang = pre @ language_auth lang @ suf"
    "\<exists>pre suf. \<forall>lang. prompt_rich R crop region w emergency lang = pre @ language_rich lang @ suf"
    "\<exists>pre suf. \<forall>lang. prompt_basic R crop w emergency lang = pre @ language_basic lang @ suf"
    by (rule prompt_auth_context, rule prompt_rich_context, rule prompt_basic_context)
  have instructions:
    "\<forall>lang. language_auth lang = language_auth (if lang = Str ''hi'' then Str ''hi'' else Str ''en'')
          \<and> language_rich lang = language_rich (if lang = Str ''hi'' then Str ''hi'' else Str ''en'')
          \<and> language_basic lang = language_basic (if lang = Str ''hi'' then Str ''hi'' else Str ''en'')"
    "language_auth (Str ''hi'') \<noteq> language_auth (Str ''en'')"
    "language_rich (Str ''hi'') \<noteq> language_rich (Str ''en'')"
    "language_basic (Str ''hi'') \<noteq> language_basic (Str ''en'')"
    by (simp_all add: language_auth_def language_rich_def language_basic_def)
  from prompts instructions
    auth_requests_share_context [of q1 q2 R E B A]
    rich_requests_share_context [of q1 q2 R E B A]
    basic_requests_share_context [of q1 q2 R E B]
  show ?thesis by blast
qed

theorem language_changes_only_instruction_witness:
  "\<exists>url pre suf.
      snd (handler_auth example_runtime stub_env stub_backends
             \<lparr>clock_now = ''2024-08-10T10:30:00.000Z'', random36 = ''0.4fzyo82mvyr''\<rparr>
             \<lparr>q_crop = Str ''wheat'', q_region = Str ''Pune'', q_lang = Str ''hi''\<rparr>) =
        [WeatherCall url,
         GenerationCall (chat_request_auth (pre @ ''Hindi (Devanagari script)'' @ suf))]
      \<and> snd (handler_auth example_runtime stub_env stub_backends
             \<lparr>clock_now = ''2024-08-10T10:30:00.000Z'', random36 = ''0.4fzyo82mvyr''\<rparr>
             \<lparr>q_crop = Str ''wheat'', q_region = Str ''Pune'', q_lang = Undefined\<rparr>) =
        [WeatherCall url,
         GenerationCall (chat_request_auth (pre @ ''English'' @ suf))]"
proof -
  have reached: "length (snd (handler_auth example_runtime stub_env stub_backends
             \<lparr>clock_now = ''2024-08-10T10:30:00.000Z'', random36 = ''0.4fzyo82mvyr''\<rparr>
             \<lparr>q_crop = Str ''wheat'', q_region = Str ''Pune'', q_lang = Str ''hi''\<rparr>)) = 2"
    by (simp add: handler_auth_def try_auth_def stub_defs pipeline_defs)
  have langs:
    "language_auth (lang_of \<lparr>q_crop = Str ''wheat'', q_region = Str ''Pune'', q_lang = Str ''hi''\<rparr>)
       = ''Hindi (Devanagari script)''"
    "language_auth (lang_of \<lparr>q_crop = Str ''wheat'', q_region = Str ''Pune'', q_lang = Undefined\<rparr>)
       = ''English''"
    by (simp_all add: language_auth_def lang_of_def)
  from language_changes_only_instruction
     [of example_runtime "Str ''wheat''" "Str ''Pune''"
         "\<lparr>description = Str ''light rain'', temp = Num (Fin 20), wind = Num (Fin 5)\<rparr>"
         rain_message
         "\<lparr>q_crop = Str ''wheat'', q_region = Str ''Pune'', q_lang = Str ''hi''\<rparr>"
         "\<lparr>q_crop = Str ''wheat'', q_region = Str ''Pune'', q_lang = Undefined\<rparr>"
         stub_env stub_backends
         "\<lparr>clock_now = ''2024-08-10T10:30:00.000Z'', random36 = ''0.4fzyo82mvyr''\<rparr>"]
  obtain url pre suf where
     "(length (snd (handler_auth example_runtime stub_env stub_backends
             \<lparr>clock_now = ''2024-08-10T10:30:00.000Z'', random36 = ''0.4fzyo82mvyr''\<rparr>
             \<lparr>q_crop = Str ''wheat'', q_region = Str ''Pune'', q_lang = Str ''hi''\<rparr>)) \<le> 1
        \<and> snd (handler_auth example_runtime stub_env stub_backends
             \<lparr>clock_now = ''2024-08-10T10:30:00.000Z'', random36 = ''0.4fzyo82mvyr''\<rparr>
             \<lparr>q_crop = Str ''wheat'', q_region = Str ''Pune'', q_lang = Str ''hi''\<rparr>)
          = snd (handler_auth example_runtime stub_env stub_backends
             \<lparr>clock_now = ''2024-08-10T10:30:00.000Z'', random36 = ''0.4fzyo82mvyr''\<rparr>
             \<lparr>q_crop = Str ''wheat'', q_region = Str ''Pune'', q_lang = Undefined\<rparr>))
      \<or> (snd (handler_auth example_runtime stub_env stub_backends
             \<lparr>clock_now = ''2024-08-10T10:30:00.000Z'', random36 = ''0.4fzyo82mvyr''\<rparr>
             \<lparr>q_crop = Str ''wheat'', q_region = Str ''Pune'', q_lang = Str ''hi''\<rparr>) =
            [WeatherCall url,
             GenerationCall (chat_request_auth (pre @ language_auth
                (lang_of \<lparr>q_crop = Str ''wheat'', q_region = Str ''Pune'', q_lang = Str ''hi''\<rparr>) @ suf))]
          \<and> snd (handler_auth example_runtime stub_env stub_backends
             \<lparr>clock_now = ''2024-08-10T10:30:00.000Z'', random36 = ''0.4fzyo82mvyr''\<rparr>
             \<lparr>q_crop = Str ''wheat'', q_region = Str ''Pune'', q_lang = Undefined\<rparr>) =
            [WeatherCall url,
             GenerationCall (chat_request_auth (pre @ language_auth
                (lang_of \<lparr>q_crop = Str ''wheat'', q_region = Str ''Pune'', q_lang = Undefined\<rparr>) @ suf))])"
    by auto
  with reached have both:
     "snd (handler_auth example_runtime stub_env stub_backends
             \<lparr>clock_now = ''2024-08-10T10:30:00.000Z'', random36 = ''0.4fzyo82mvyr''\<rparr>
             \<lparr>q_crop = Str ''wheat'', q_region = Str ''Pune'', q_lang = Str ''hi''\<rparr>) =
            [WeatherCall url,
             GenerationCall (chat_request_auth (pre @ language_auth
                (lang_of \<lparr>q_crop = Str ''wheat'', q_region = Str ''Pune'', q_lang = Str ''hi''\<rparr>) @ suf))]
      \<and> snd (handler_auth example_runtime stub_env stub_backends
             \<lparr>clock_now = ''2024-08-10T10:30:00.000Z'', random36 = ''0.4fzyo82mvyr''\<rparr>
             \<lparr>q_crop = Str ''wheat'', q_region = Str ''Pune'', q_lang = Undefined\<rparr>) =
            [WeatherCall url,
             GenerationCall (chat_request_auth (pre @ language_auth
                (lang_of \<lparr>q_crop = Str ''wheat'', q_region = Str ''Pune'', q_lang = Undefined\<rparr>) @ suf))]"
    by linarith
  then show ?thesis unfolding langs by blast
qed

lemma deterministic_auth:
  "status (fst (handler_auth R E B A1 q)) = status (fst (handler_auth R E B A2 q))
   \<and> erase_in ''data'' ''timestamp'' (body (fst (handler_auth R E B A1 q)))
       = erase_in ''data'' ''timestamp'' (body (fst (handler_auth R E B A2 q)))
   \<and> snd (handler_auth R E B A1 q) = snd (handler_auth R E B A2 q)"
  by (simp add: handler_auth_def try_auth_def Let_def erase_in_def delete_key_def
        split: sum.splits prod.splits)

lemma deterministic_rich:
  "status (fst (handler_rich R E B A1 q)) = status (fst (handler_rich R E B A2 q))
   \<and> erase_in ''metadata'' ''request_id'' (erase_in ''data'' ''timestamp'' (body (fst (handler_rich R E B A1 q))))
       = erase_in ''metadata'' ''request_id'' (erase_in ''data'' ''timestamp'' (body (fst (handler_rich R E B A2 q))))
   \<and> delete_key ''timestamp'' (opt_member (body (fst (handler_rich R E B A1 q))) ''data'')
       = delete_key ''timestamp'' (opt_member (body (fst (handler_rich R E B A2 q))) ''data'')
   \<and> snd (handler_rich R E B A1 q) = snd (handler_rich R E B A2 q)"
  by (simp add: handler_rich_def try_rich_def catch_rich_def Let_def erase_in_def delete_key_def
        split: sum.splits prod.splits)

text \<open>
  C9, as the code has it. With the same request, configuration and deterministic
  providers, two runs of the authenticated handler send the same status and the same body
  except for data.timestamp, and make the same upstream calls. Two runs of the richer
  handler agree in the same way except for data.timestamp and metadata.request_id, which is
  drawn from Math.random(); their data objects agree except for timestamp. The basic
  handler reads neither the clock nor the random source.
\<close>

theorem advisory_deterministic_up_to_timestamp:
  "status (fst (handler_auth R E B A1 q)) = status (fst (handler_auth R E B A2 q))
   \<and> erase_in ''data'' ''timestamp'' (body (fst (handler_auth R E B A1 q)))
       = erase_in ''data'' ''timestamp'' (body (fst (handler_auth R E B A2 q)))
   \<and> snd (handler_auth R E B A1 q) = snd (handler_auth R E B A2 q)
   \<and> status (fst (handler_rich R E B A1 q)) = status (fst (handler_rich R E B A2 q))
   \<and> erase_in ''metadata'' ''request_id''
         (erase_in ''data'' ''timestamp'' (body (fst (handler_rich R E B A1 q))))
       = erase_in ''metadata'' ''request_id''
         (erase_in ''data'' ''timestamp'' (body (fst (handler_rich R E B A2 q))))
   \<and> delete_key ''timestamp'' (opt_member (body (fst (handler_rich R E B A1 q))) ''data'')
       = delete_key ''timestamp'' (opt_member (body (fst (handler_rich R E B A2 q))) ''data'')
   \<and> snd (handler_rich R E B A1 q) = snd (handler_rich R E B A2 q)"
  using deterministic_auth [of R E B A1 q A2] deterministic_rich [of R E B A1 q A2]
  by blast

theorem advisory_deterministic_up_to_timestamp_witness:
  "erase_in ''data'' ''timestamp'' (body (fst (handler_auth example_runtime stub_env stub_backends
         \<lparr>clock_now = ''2024-08-10T10:30:00.000Z'', random36 = ''0.4fzyo82mvyr''\<rparr> stub_query)))
     = erase_in ''data'' ''timestamp'' (body (fst (handler_auth example_runtime stub_env stub_backends
         \<lparr>clock_now = ''2024-08-10T10:31:00.000Z'', random36 = ''0.9x1c3kq07ab''\<rparr> stub_query)))
   \<and> body (fst (handler_auth example_runtime stub_env stub_backends
         \<lparr>clock_now = ''2024-08-10T10:30:00.000Z'', random36 = ''0.4fzyo82mvyr''\<rparr> stub_query))
     \<noteq> body (fst (handler_auth example_runtime stub_env stub_backends
         \<lparr>clock_now = ''2024-08-10T10:31:00.000Z'', random36 = ''0.9x1c3kq07ab''\<rparr> stub_query))
   \<and> status (fst (handler_auth example_runtime stub_env stub_backends
         \<lparr>clock_now = ''2024-08-10T10:30:00.000Z'', random36 = ''0.4fzyo82mvyr''\<rparr> stub_query)) = 200"
proof -
  have differ: "body (fst (handler_auth example_runtime stub_env stub_backends
         \<lparr>clock_now = ''2024-08-10T10:30:00.000Z'', random36 = ''0.4fzyo82mvyr''\<rparr> stub_query))
     \<noteq> body (fst (handler_auth example_runtime stub_env stub_backends
         \<lparr>clock_now = ''2024-08-10T10:31:00.000Z'', random36 = ''0.9x1c3kq07ab''\<rparr> stub_query))"
    by (simp add: handler_auth_def try_auth_def stub_defs pipeline_defs)
  have ok: "status (fst (handler_auth example_runtime stub_env stub_backends
         \<lparr>clock_now = ''2024-08-10T10:30:00.000Z'', random36 = ''0.4fzyo82mvyr''\<rparr> stub_query)) = 200"
    by (simp add: handler_auth_def try_auth_def stub_defs pipeline_defs)
  from differ ok advisory_deterministic_up_to_timestamp
     [of example_runtime stub_env stub_backends
         "\<lparr>clock_now = ''2024-08-10T10:30:00.000Z'', random36 = ''0.4fzyo82mvyr''\<rparr>" stub_query
         "\<lparr>clock_now = ''2024-08-10T10:31:00.000Z'', random36 = ''0.9x1c3kq07ab''\<rparr>"]
  show ?thesis by blast
qed

text \<open>
  C9 as stated fails in the richer server: two runs with the same request, providers and
  clock, and different draws of Math.random(), send bodies that differ outside timestamp.
\<close>

theorem request_id_counterexample:
  "erase_in ''data'' ''timestamp'' (body (fst (handler_rich example_runtime stub_env stub_backends
         \<lparr>clock_now = ''2024-08-10T10:30:00.000Z'', random36 = ''0.4fzyo82mvyr''\<rparr> stub_query)))
     \<noteq> erase_in ''data'' ''timestamp'' (body (fst (handler_rich example_runtime stub_env stub_backends
         \<lparr>clock_now = ''2024-08-10T10:30:00.000Z'', random36 = ''0.9x1c3kq07ab''\<rparr> stub_query)))
   \<and> opt_member (opt_member (body (fst (handler_rich example_runtime stub_env stub_backends
         \<lparr>clock_now = ''2024-08-10T10:30:00.000Z'', random36 = ''0.4fzyo82mvyr''\<rparr> stub_query)))
         ''metadata'') ''request_id'' = Str ''82mvyr''
   \<and> opt_member (opt_member (body (fst (handler_rich example_runtime stub_env stub_backends
         \<lparr>clock_now = ''2024-08-10T10:30:00.000Z'', random36 = ''0.9x1c3kq07ab''\<rparr> stub_query)))
         ''metadata'') ''request_id'' = Str ''kq07ab''"
  by (simp add: handler_rich_def try_rich_def stub_defs pipeline_defs erase_in_def delete_key_def)

end
